theory Spec2Isabelle
  imports Main "HOL-Library.Word"
begin

unbundle bit_operations_syntax

section \<open>The varlink command line client (main.go)\<close>

text \<open>
  The program is one Go file. It parses global flags, selects one of the commands
  \<open>info\<close>, \<open>help\<close> and \<open>call\<close>, opens one connection, makes one request and prints
  the result. Everything it does is an effect, so a run is modelled by the list of
  its interactions with the outside world (an \<open>event list\<close>, in program order) and
  the way it ends (an \<open>outcome\<close>).

  The collaborators that are not part of main.go (the varlink transport, the JSON
  decoder, the colour and JSON formatting libraries, the process environment) are
  the fields of the record \<open>env\<close>: the model calls them where main.go calls them and
  assumes nothing about what they answer. Go's \<open>flag\<close> package decides which
  command line reaches which branch of main.go, so its parser is modelled in full.
\<close>

subsection \<open>Values exchanged with the collaborators\<close>

text \<open>A decoded JSON value, and \<open>map[string]interface{}\<close> as a list of members
  (the nil map is the empty list: the program only ever formats such a map).\<close>

datatype json = JNull | JBool bool | JNumber string | JString string
  | JArray "json list" | JObject "(string \<times> json) list"

type_synonym jmap = "(string \<times> json) list"

text \<open>A \<open>json.RawMessage\<close> is the text of a JSON value; a variable of that type that
  is nil is \<open>None\<close>.\<close>

type_synonym rawmessage = "string option"

text \<open>A \<open>*varlink.Connection\<close>, named by the way it was obtained.\<close>

datatype conn = BridgeConn string | AddressConn string

text \<open>The field \<open>Parameters\<close> of a \<open>*varlink.Error\<close> has type \<open>interface{}\<close>. Line 141
  asserts that it holds a \<open>*json.RawMessage\<close> (which may be a nil pointer); a value of
  any other dynamic type makes that assertion panic.\<close>

datatype dyn = RawMessagePtr "string option" | OtherDyn

text \<open>What the reply accessor returned by \<open>Send\<close> does when it is called: it stores a
  reply in \<open>retval\<close>, or returns a \<open>*varlink.Error\<close>, or returns another error (shown
  with its message), or it never returns because no reply arrives.\<close>

datatype recv_result =
    Reply jmap
  | VarlinkError string dyn
  | OtherError string
  | NoReturn

record info =
  vendor :: string
  product :: string
  version :: string
  url :: string
  interfaces :: "string list"

datatype attribute = Bold | FgRed | FgCyan | FgMagenta

subsection \<open>Go's flag package\<close>

datatype flagvalue = BoolV bool | StringV string

text \<open>A defined flag: its name, its default value (which fixes its kind) and its usage
  text.\<close>

type_synonym flagdef = "string \<times> flagvalue \<times> string"

type_synonym flagvals = "string \<rightharpoonup> flagvalue"

datatype flag_error =
    BadFlagSyntax string
  | NotDefined string
  | InvalidBoolean string string
  | NeedsArgument string

datatype parse_step =
    Seen flagvals "string list"
  | NoMoreFlags "string list"
  | Failed flag_error
  | HelpRequested

text \<open>\<open>strconv.ParseBool\<close>, which a boolean flag uses for \<open>-name=value\<close>.\<close>

definition ParseBool :: "string \<Rightarrow> bool option" where
  "ParseBool s =
     (if s \<in> set [''1'', ''t'', ''T'', ''TRUE'', ''true'', ''True''] then Some True
      else if s \<in> set [''0'', ''f'', ''F'', ''FALSE'', ''false'', ''False''] then Some False
      else None)"

text \<open>
  \<open>FlagSet.parseOne\<close>. An argument shorter than two bytes or not starting with \<open>-\<close>
  ends the flags, as does \<open>--\<close> (which is consumed). One or two leading minus signs
  are removed; what follows is the name, up to the first \<open>=\<close> when there is one. A
  name that is empty or starts with \<open>-\<close> or \<open>=\<close> is a syntax error. The name is looked
  up among the defined flags; an undefined \<open>help\<close> or \<open>h\<close> asks for the usage. A
  boolean flag takes its value only from \<open>=value\<close>; any other flag takes the next
  argument when there is no \<open>=value\<close>.
\<close>

fun parseOne :: "flagdef list \<Rightarrow> flagvals \<Rightarrow> string list \<Rightarrow> parse_step" where
  "parseOne fs vals [] = NoMoreFlags []"
| "parseOne fs vals (s # args) =
     (if length s < 2 \<or> s ! 0 \<noteq> CHR ''-'' then NoMoreFlags (s # args)
      else if s ! 1 = CHR ''-'' \<and> length s = 2 then NoMoreFlags args
      else
        let numMinuses = (if s ! 1 = CHR ''-'' then 2 else 1 :: nat);
            name = drop numMinuses s
        in if length name = 0 \<or> name ! 0 = CHR ''-'' \<or> name ! 0 = CHR ''=''
           then Failed (BadFlagSyntax s)
           else
             let hasValue = (CHR ''='' \<in> set (tl name));
                 value = tl (dropWhile (\<lambda>c. c \<noteq> CHR ''='') (tl name));
                 name = hd name # takeWhile (\<lambda>c. c \<noteq> CHR ''='') (tl name)
             in case map_of fs name of
                  None \<Rightarrow>
                    if name = ''help'' \<or> name = ''h'' then HelpRequested
                    else Failed (NotDefined name)
                | Some (BoolV d, u) \<Rightarrow>
                    if hasValue then
                      (case ParseBool value of
                         None \<Rightarrow> Failed (InvalidBoolean value name)
                       | Some b \<Rightarrow> Seen (vals(name \<mapsto> BoolV b)) args)
                    else Seen (vals(name \<mapsto> BoolV True)) args
                | Some (StringV d, u) \<Rightarrow>
                    if \<not> hasValue \<and> length args > 0
                    then Seen (vals(name \<mapsto> StringV (hd args))) (tl args)
                    else if \<not> hasValue then Failed (NeedsArgument name)
                    else Seen (vals(name \<mapsto> StringV value)) args)"

lemma parseOne_Seen_shorter:
  "parseOne fs vals args = Seen vals' args' \<Longrightarrow> length args' < length args"
  by (cases args)
     (auto simp: Let_def split: if_splits option.splits flagvalue.splits prod.splits)

text \<open>The loop of \<open>FlagSet.Parse\<close>: it calls \<open>parseOne\<close> until no flag is seen. The
  result is the failure that stopped it, or the values that were set together with
  the remaining (positional) arguments.\<close>

datatype parse_result =
    ParseFailed flag_error
  | ParseHelp
  | Parsed flagvals "string list"

function Parse :: "flagdef list \<Rightarrow> flagvals \<Rightarrow> string list \<Rightarrow> parse_result" where
  "Parse fs vals args =
     (case parseOne fs vals args of
        Seen vals' args' \<Rightarrow> Parse fs vals' args'
      | NoMoreFlags args' \<Rightarrow> Parsed vals args'
      | Failed e \<Rightarrow> ParseFailed e
      | HelpRequested \<Rightarrow> ParseHelp)"
  by pat_completeness auto
termination
  by (relation "measure (\<lambda>(fs, vals, args). length args)")
     (auto dest: parseOne_Seen_shorter)

declare Parse.simps [simp del]

text \<open>The variable bound by \<open>BoolVar\<close> or \<open>StringVar\<close> holds the default until the flag is
  set.\<close>

definition boolVar :: "flagvals \<Rightarrow> string \<Rightarrow> bool \<Rightarrow> bool" where
  "boolVar vals name dflt = (case vals name of Some (BoolV b) \<Rightarrow> b | _ \<Rightarrow> dflt)"

definition stringVar :: "flagvals \<Rightarrow> string \<Rightarrow> string \<Rightarrow> string" where
  "stringVar vals name dflt = (case vals name of Some (StringV s) \<Rightarrow> s | _ \<Rightarrow> dflt)"

text \<open>\<open>FlagSet.Arg(i)\<close>: the i-th remaining argument, or the empty string.\<close>

definition Arg :: "string list \<Rightarrow> nat \<Rightarrow> string" where
  "Arg args i = (if i < length args then args ! i else '''')"

subsection \<open>The outside world\<close>

text \<open>
  The collaborators, as main.go uses them. An operation that can fail returns the
  message of its error (\<open>Some msg\<close> or \<open>Inl msg\<close>), which main.go prints with \<open>%v\<close>.
  Only the reply accessor is given the possibility of never returning (a service that
  sends no reply); every other operation is taken to return.
  \<^item> \<open>NewBridge\<close>, \<open>NewConnection\<close>, \<open>Send\<close>, \<open>recv\<close>, \<open>GetInterfaceDescription\<close>,
    \<open>GetInfo\<close> and the constant \<open>Oneway\<close> belong to the varlink transport; what the
    reply accessor does may depend on everything that was sent;
  \<^item> \<open>jsonUnmarshalRaw\<close> is \<open>json.Unmarshal\<close> into a \<open>json.RawMessage\<close>;
  \<^item> \<open>jsonUnmarshalMap\<close> is \<open>json.Unmarshal\<close> into a nil \<open>map[string]interface{}\<close>: it
    gives the error that was returned, if any, and the map as the call leaves it. The
    decoder can fail and leave the map nil (a text that is not JSON), and it can fail
    after it has stored members (it goes on after a number that overflows \<open>float64\<close>
    and returns the error at the end);
  \<^item> \<open>colorjsonMarshal\<close> is the formatter built at lines 130 to 136, which reads
    the global \<open>color.NoColor\<close>;
  \<^item> \<open>colorWrap\<close> puts the escape sequences of an attribute around a text;
  \<^item> \<open>PrintDefaults\<close> and \<open>flagErrorText\<close> are the texts the flag package prints,
    and \<open>flagNamesChecked\<close> says whether the release of the flag package checks the
    name of a flag when it is registered (Go 1.17 and later do).
\<close>

record env =
  progName :: string
  envTERM :: string
  initNoColor :: bool
  flagNamesChecked :: bool
  colorWrap :: "attribute \<Rightarrow> string \<Rightarrow> string"
  PrintDefaults :: "flagdef list \<Rightarrow> string"
  flagErrorText :: "flag_error \<Rightarrow> string"
  NewBridge :: "string \<Rightarrow> string option"
  NewConnection :: "string \<Rightarrow> string option"
  Send :: "conn \<Rightarrow> string \<Rightarrow> rawmessage \<Rightarrow> 64 word \<Rightarrow> string option"
  recv :: "conn \<Rightarrow> string \<Rightarrow> rawmessage \<Rightarrow> 64 word \<Rightarrow> recv_result"
  GetInterfaceDescription :: "conn \<Rightarrow> string \<Rightarrow> string + string"
  GetInfo :: "conn \<Rightarrow> string + info"
  Oneway :: "64 word"
  jsonUnmarshalRaw :: "string \<Rightarrow> string + string"
  jsonUnmarshalMap :: "string \<Rightarrow> string option \<times> jmap"
  colorjsonMarshal :: "bool \<Rightarrow> jmap \<Rightarrow> string"

text \<open>An interaction of the program with the outside world: a write to one of the two
  streams, or a call of the transport together with what it answered.\<close>

datatype event =
    Stdout string
  | Stderr string
  | EvNewBridge string "string option"
  | EvNewConnection string "string option"
  | EvSend conn string rawmessage "64 word" "string option"
  | EvRecv recv_result
  | EvGetInterfaceDescription conn string "string + string"
  | EvGetInfo conn "string + info"

text \<open>How a function of main.go ends: it returns, it calls \<open>os.Exit\<close>, it panics (the Go
  runtime then reports the panic on the diagnostic stream and ends the process with
  status 2), or it waits forever.\<close>

datatype outcome = Returned | Exit nat | Panic | Blocked

definition exit_status :: "outcome \<Rightarrow> nat option" where
  "exit_status out =
     (case out of Returned \<Rightarrow> Some 0 | Exit n \<Rightarrow> Some n | Panic \<Rightarrow> Some 2 | Blocked \<Rightarrow> None)"

type_synonym run = "event list \<times> outcome"

definition after :: "event list \<Rightarrow> run \<Rightarrow> run" where
  "after evs r = (evs @ fst r, snd r)"

text \<open>The process-wide variables of main.go (lines 16 to 20) and \<open>color.NoColor\<close>, as
  \<open>main\<close> leaves them for the command it runs.\<close>

record globals =
  bridge :: string
  errorBoldRed :: string
  NoColor :: bool

text \<open>\<open>Color.Sprint\<close>: the text itself when colours are off.\<close>

definition Sprint :: "env \<Rightarrow> bool \<Rightarrow> attribute \<Rightarrow> string \<Rightarrow> string" where
  "Sprint e noColor a s = (if noColor then s else colorWrap e a s)"

definition errPrintf :: "globals \<Rightarrow> string \<Rightarrow> event list" where
  "errPrintf g msg = [Stderr (errorBoldRed g @ '' ''), Stderr msg]"

definition globalFlags :: "flagdef list" where
  "globalFlags =
     [(''debug'', BoolV False, ''Enable debug output''),
      (''bridge'', StringV [], ''Use bridge for connection''),
      (''color'', StringV ''auto'',
         ''colorize output [default: auto]  [possible values: on, off, auto]'')]"

text \<open>\<open>printUsage\<close> (lines 27 to 47); its argument \<open>set\<close>, here \<open>flagSet\<close>, is \<open>None\<close>
  for the nil flag set, and otherwise the name and the flags of the command's flag set.
  It always ends the process with status 1.\<close>

definition printUsage :: "env \<Rightarrow> (string \<times> flagdef list) option \<Rightarrow> string \<Rightarrow> run" where
  "printUsage e flagSet arg_help =
     ((case flagSet of
         None \<Rightarrow> [Stderr (''Usage: '' @ progName e @ '' [GLOBAL OPTIONS] COMMAND ...\<newline>'')]
       | Some (name, fs) \<Rightarrow>
           [Stderr (''Usage: '' @ progName e @ '' [GLOBAL OPTIONS] '' @ name @ '' [OPTIONS] ''
                     @ arg_help @ ''\<newline>'')])
      @ [Stderr ''\<newline>Global Options:\<newline>'', Stderr (PrintDefaults e globalFlags)]
      @ (case flagSet of
           None \<Rightarrow>
             [Stderr ''\<newline>Commands:\<newline>'',
              Stderr (''  info'' @ [CHR 0x09] @ ''Print information about a service\<newline>''),
              Stderr (''  help'' @ [CHR 0x09]
                      @ ''Print interface description or service information\<newline>''),
              Stderr (''  call'' @ [CHR 0x09] @ ''Call a method\<newline>'')]
         | Some (name, fs) \<Rightarrow>
             [Stderr ''\<newline>Options:\<newline>'', Stderr (PrintDefaults e fs)]),
      Exit 1)"

text \<open>
  \<open>BoolVar\<close> and \<open>StringVar\<close> register a flag through \<open>FlagSet.Var\<close>. Since Go 1.17
  \<open>Var\<close> panics when the name begins with \<open>-\<close> or contains \<open>=\<close>; before, it
  registered any name. \<open>registers e fs\<close>: the flags \<open>fs\<close> are registered without a
  panic.
\<close>

definition validFlagName :: "string \<Rightarrow> bool" where
  "validFlagName name = (take 1 name \<noteq> ''-'' \<and> CHR ''='' \<notin> set name)"

definition registers :: "env \<Rightarrow> flagdef list \<Rightarrow> bool" where
  "registers e fs =
     (if flagNamesChecked e then list_all (\<lambda>(name, dflt, usage). validFlagName name) fs
      else True)"

text \<open>
  Before it panics, \<open>Var\<close> prints the message of the panic on the output of the flag set,
  which is the diagnostic stream: \<open>flag %q begins with -\<close> or \<open>flag %q contains =\<close>, and
  a newline. \<open>registrationPanic fs\<close> is the message of the first registration among \<open>fs\<close>
  that panics. (\<open>%q\<close> puts the name between double quotes; the names in main.go hold no
  character that it would escape.)
\<close>

fun registrationPanic :: "flagdef list \<Rightarrow> string" where
  "registrationPanic [] = []"
| "registrationPanic ((name, dflt, usage) # fs) =
     (if take 1 name = ''-'' then ''flag '' @ [CHR 0x22] @ name @ [CHR 0x22] @ '' begins with -''
      else if CHR ''='' \<in> set name then
        ''flag '' @ [CHR 0x22] @ name @ [CHR 0x22] @ '' contains =''
      else registrationPanic fs)"

text \<open>
  The flags of a flag set are registered and \<open>FlagSet.Parse\<close> is called, on a flag set
  whose \<open>Usage\<close> is \<open>usage\<close>. Between the first registration and the call of \<open>Parse\<close>
  main.go does nothing that can be observed, so a registration that panics is the whole
  run: the message that \<open>Var\<close> prints, and the panic. When an argument cannot be
  parsed the flag package prints the error and calls \<open>Usage\<close>; for an undefined \<open>-help\<close>
  or \<open>-h\<close> it calls \<open>Usage\<close> directly. In main.go every \<open>Usage\<close> is a call of
  \<open>printUsage\<close>, which exits, so the process ends there.
\<close>

definition parseFlags ::
    "env \<Rightarrow> run \<Rightarrow> flagdef list \<Rightarrow> string list \<Rightarrow> run + (flagvals \<times> string list)" where
  "parseFlags e usage fs args =
     (if \<not> registers e fs then Inl ([Stderr (registrationPanic fs @ ''\<newline>'')], Panic)
      else
        (case Parse fs Map.empty args of
           ParseFailed err \<Rightarrow> Inl (after [Stderr (flagErrorText e err @ ''\<newline>'')] usage)
         | ParseHelp \<Rightarrow> Inl usage
         | Parsed vals rest \<Rightarrow> Inr (vals, rest)))"

text \<open>
  \<open>strings.LastIndex(s, "/")\<close>: for a separator of one byte the library scans the
  bytes of \<open>s\<close> from the last to the first and returns the first index where it finds the
  byte, or \<open>-1\<close>.
\<close>

fun lastIndexLoop :: "string \<Rightarrow> char \<Rightarrow> nat \<Rightarrow> int" where
  "lastIndexLoop s c 0 = -1"
| "lastIndexLoop s c (Suc i) = (if s ! i = c then int i else lastIndexLoop s c i)"

definition LastIndex :: "string \<Rightarrow> char \<Rightarrow> int" where
  "LastIndex s c = lastIndexLoop s c (length s)"

text \<open>\<open>strings.Join\<close>.\<close>

fun Join :: "string list \<Rightarrow> string \<Rightarrow> string" where
  "Join [] sep = []"
| "Join [x] sep = x"
| "Join (x # xs) sep = x @ sep @ Join xs sep"

subsection \<open>varlinkCall (lines 49 to 155)\<close>

text \<open>The flag set of \<open>call\<close> (lines 53 to 56). It is created under the name \<open>help\<close>,
  and the boolean flag bound to the variable \<open>oneway\<close> is registered under the name
  \<open>-oneway\<close>, with the minus sign as part of the name. Where the flag package checks
  names, that registration panics and \<open>call\<close> does nothing else; where it does not, the
  flag is registered under a name that no argument can give.\<close>

definition callFlags :: "flagdef list" where
  "callFlags =
     [(''-oneway'', BoolV False, ''Use bridge for connection''),
      (''help'', BoolV False, ''Prints help information'')]"

definition callUsage :: "env \<Rightarrow> run" where
  "callUsage e =
     printUsage e (Some (''help'', callFlags)) ''<[ADDRESS/]INTERFACE.METHOD> [ARGUMENTS]''"

text \<open>Lines 72 to 100: the connection and the method name. The result is the run that
  ended the process, or the events so far with the connection and the method name.\<close>

definition callConnect ::
    "env \<Rightarrow> globals \<Rightarrow> string list \<Rightarrow> run + (event list \<times> conn \<times> string)" where
  "callConnect e g rest =
     (if length (bridge g) \<noteq> 0 then
        (case NewBridge e (bridge g) of
           Some err \<Rightarrow>
             Inl (EvNewBridge (bridge g) (Some err)
                  # errPrintf g (''Cannot connect with bridge '' @ [CHR 0x27] @ bridge g
                                 @ ''': '' @ err @ ''\<newline>''),
                  Exit 2)
         | None \<Rightarrow> Inr ([EvNewBridge (bridge g) None], BridgeConn (bridge g), Arg rest 0))
      else
        let uri = Arg rest 0 in
        if uri = [] then Inl (callUsage e)
        else
          let li = LastIndex uri CHR ''/'' in
          if li = -1 then
            Inl (errPrintf g (''Invalid address '' @ [CHR 0x27] @ uri @ '''\<newline>''), Exit 2)
          else
            let address = take (nat li) uri;
                methodName = drop (nat (li + 1)) uri
            in case NewConnection e address of
                 Some err \<Rightarrow>
                   Inl (EvNewConnection address (Some err)
                        # errPrintf g (''Cannot connect to '' @ [CHR 0x27] @ address
                                       @ ''': '' @ err @ ''\<newline>''),
                        Exit 2)
               | None \<Rightarrow>
                   Inr ([EvNewConnection address None], AddressConn address, methodName))"

text \<open>Lines 101 to 112: the parameters. An empty string leaves \<open>params\<close> nil; any
  other string is given to \<open>json.Unmarshal\<close>, whose error ends the process.\<close>

definition callParams :: "env \<Rightarrow> globals \<Rightarrow> string list \<Rightarrow> run + rawmessage" where
  "callParams e g rest =
     (let parameters = Arg rest 1 in
      if parameters = [] then Inr None
      else
        (case jsonUnmarshalRaw e parameters of
           Inl err \<Rightarrow>
             Inl (errPrintf g (''Cannot parse parameters: '' @ err @ ''\<newline>''), Exit 2)
         | Inr raw \<Rightarrow> Inr (Some raw)))"

text \<open>Lines 125 to 154: the reply accessor is called and its result is shown. The
  error of \<open>json.Unmarshal\<close> on the parameters of an error (line 144) is dropped, and
  \<open>param\<close> is formatted as the call left it.\<close>

definition callReply ::
    "env \<Rightarrow> globals \<Rightarrow> conn \<Rightarrow> string \<Rightarrow> rawmessage \<Rightarrow> 64 word \<Rightarrow> run" where
  "callReply e g con methodName params flags =
     (let r = recv e con methodName params flags in
      case r of
        NoReturn \<Rightarrow> ([EvRecv r], Blocked)
      | VarlinkError name d \<Rightarrow>
          after (EvRecv r
                 # errPrintf g (''Call failed with error: '' @ Sprint e (NoColor g) FgRed name
                                @ ''\<newline>''))
            (case d of
               OtherDyn \<Rightarrow> ([], Panic)
             | RawMessagePtr None \<Rightarrow> ([], Exit 2)
             | RawMessagePtr (Some errorRawParameters) \<Rightarrow>
                 let param = snd (jsonUnmarshalMap e errorRawParameters);
                     c = colorjsonMarshal e (NoColor g) param
                 in ([Stderr (c @ ''\<newline>'')], Exit 2))
      | OtherError err \<Rightarrow>
          (EvRecv r
           # errPrintf g (''Error calling '' @ [CHR 0x27] @ methodName @ ''': '' @ err
                          @ ''\<newline>''),
           Exit 2)
      | Reply retval \<Rightarrow>
          ([EvRecv r, Stdout (colorjsonMarshal e (NoColor g) retval @ ''\<newline>'')],
           Returned))"

text \<open>Lines 66 to 155, after the flags are parsed: connect, read the parameters, set
  the flags of the call, send, and handle the reply.\<close>

definition varlinkCall_body :: "env \<Rightarrow> globals \<Rightarrow> bool \<Rightarrow> string list \<Rightarrow> run" where
  "varlinkCall_body e g oneway rest =
     (case callConnect e g rest of
        Inl r \<Rightarrow> r
      | Inr (evs, con, methodName) \<Rightarrow>
          after evs
            (case callParams e g rest of
               Inl r \<Rightarrow> r
             | Inr params \<Rightarrow>
                 (let flags = (if oneway then 0 OR Oneway e else 0) in
                  (case Send e con methodName params flags of
                     Some err \<Rightarrow>
                       (EvSend con methodName params flags (Some err)
                        # errPrintf g (''Error calling '' @ [CHR 0x27] @ methodName @ ''': ''
                                       @ err @ ''\<newline>''),
                        Exit 2)
                   | None \<Rightarrow>
                       after [EvSend con methodName params flags None]
                         (callReply e g con methodName params flags)))))"

text \<open>Lines 49 to 64: the flags of the command are parsed and \<open>-help\<close> prints the
  usage; then the body runs.\<close>

definition varlinkCall :: "env \<Rightarrow> globals \<Rightarrow> string list \<Rightarrow> run" where
  "varlinkCall e g args =
     (case parseFlags e (callUsage e) callFlags args of
        Inl r \<Rightarrow> r
      | Inr (vals, rest) \<Rightarrow>
          let oneway = boolVar vals ''-oneway'' False;
              help = boolVar vals ''help'' False
          in if help then callUsage e else varlinkCall_body e g oneway rest)"

subsection \<open>varlinkHelp (lines 157 to 216)\<close>

definition helpFlags :: "flagdef list" where
  "helpFlags = [(''help'', BoolV False, ''Prints help information'')]"

definition helpUsage :: "env \<Rightarrow> run" where
  "helpUsage e = printUsage e (Some (''help'', helpFlags)) ''<[ADDRESS/]INTERFACE>''"

text \<open>Lines 178 to 208: the connection and the interface name.\<close>

definition helpConnect ::
    "env \<Rightarrow> globals \<Rightarrow> string list \<Rightarrow> run + (event list \<times> conn \<times> string)" where
  "helpConnect e g rest =
     (if length (bridge g) \<noteq> 0 then
        (case NewBridge e (bridge g) of
           Some err \<Rightarrow>
             Inl (EvNewBridge (bridge g) (Some err)
                  # errPrintf g (''Cannot connect with bridge '' @ [CHR 0x27] @ bridge g
                                 @ ''': '' @ err @ ''\<newline>''),
                  Exit 2)
         | None \<Rightarrow> Inr ([EvNewBridge (bridge g) None], BridgeConn (bridge g), Arg rest 0))
      else
        let uri = Arg rest 0 in
        if uri = [] \<and> bridge g = [] then
          Inl (after (errPrintf g ''No ADDRESS or activation or bridge\<newline>\<newline>'')
                 (helpUsage e))
        else
          let li = LastIndex uri CHR ''/'' in
          if li = -1 then
            Inl (errPrintf g (''Invalid address '' @ [CHR 0x27] @ uri @ '''\<newline>''), Exit 2)
          else
            let address = take (nat li) uri in
            case NewConnection e address of
              Some err \<Rightarrow>
                Inl (EvNewConnection address (Some err)
                     # errPrintf g (''Cannot connect to '' @ [CHR 0x27] @ address
                                    @ ''': '' @ err @ ''\<newline>''),
                     Exit 2)
            | None \<Rightarrow>
                Inr ([EvNewConnection address None], AddressConn address,
                     drop (nat (li + 1)) uri))"

definition varlinkHelp :: "env \<Rightarrow> globals \<Rightarrow> string list \<Rightarrow> run" where
  "varlinkHelp e g args =
     (case parseFlags e (helpUsage e) helpFlags args of
        Inl r \<Rightarrow> r
      | Inr (vals, rest) \<Rightarrow>
          if boolVar vals ''help'' False then helpUsage e
          else
            (case helpConnect e g rest of
               Inl r \<Rightarrow> r
             | Inr (evs, con, interfaceName) \<Rightarrow>
                 after evs
                   (let d = GetInterfaceDescription e con interfaceName in
                    case d of
                      Inl err \<Rightarrow>
                        (EvGetInterfaceDescription con interfaceName d
                         # errPrintf g (''Cannot get interface description for '' @ [CHR 0x27]
                                        @ interfaceName @ ''': '' @ err @ ''\<newline>''),
                         Exit 2)
                    | Inr description \<Rightarrow>
                        ([EvGetInterfaceDescription con interfaceName d,
                          Stdout (description @ ''\<newline>'')],
                         Returned))))"

subsection \<open>varlinkInfo (lines 218 to 273)\<close>

definition infoFlags :: "flagdef list" where
  "infoFlags = [(''help'', BoolV False, ''Prints help information'')]"

definition infoUsage :: "env \<Rightarrow> run" where
  "infoUsage e = printUsage e (Some (''info'', infoFlags)) ''[ADDRESS]''"

text \<open>Lines 237 to 257: the connection and the address shown in messages.\<close>

definition infoConnect ::
    "env \<Rightarrow> globals \<Rightarrow> string list \<Rightarrow> run + (event list \<times> conn \<times> string)" where
  "infoConnect e g rest =
     (if length (bridge g) \<noteq> 0 then
        (case NewBridge e (bridge g) of
           Some err \<Rightarrow>
             Inl (EvNewBridge (bridge g) (Some err)
                  # errPrintf g (''Cannot connect with bridge '' @ [CHR 0x27] @ bridge g
                                 @ ''': '' @ err @ ''\<newline>''),
                  Exit 2)
         | None \<Rightarrow>
             Inr ([EvNewBridge (bridge g) None], BridgeConn (bridge g),
                  ''bridge:'' @ bridge g))
      else
        let address = Arg rest 0 in
        if address = [] \<and> bridge g = [] then
          Inl (after (errPrintf g ''No ADDRESS or activation or bridge\<newline>\<newline>'')
                 (infoUsage e))
        else
          (case NewConnection e address of
             Some err \<Rightarrow>
               Inl (EvNewConnection address (Some err)
                    # errPrintf g (''Cannot connect to '' @ [CHR 0x27] @ address
                                   @ ''': '' @ err @ ''\<newline>''),
                    Exit 2)
           | None \<Rightarrow> Inr ([EvNewConnection address None], AddressConn address, address)))"

definition varlinkInfo :: "env \<Rightarrow> globals \<Rightarrow> string list \<Rightarrow> run" where
  "varlinkInfo e g args =
     (case parseFlags e (infoUsage e) infoFlags args of
        Inl r \<Rightarrow> r
      | Inr (vals, rest) \<Rightarrow>
          if boolVar vals ''help'' False then infoUsage e
          else
            (case infoConnect e g rest of
               Inl r \<Rightarrow> r
             | Inr (evs, con, address) \<Rightarrow>
                 after evs
                   (let r = GetInfo e con in
                    case r of
                      Inl err \<Rightarrow>
                        (EvGetInfo con r
                         # errPrintf g (''Cannot get info for '' @ [CHR 0x27] @ address
                                        @ ''': '' @ err @ ''\<newline>''),
                         Exit 2)
                    | Inr i \<Rightarrow>
                        ([EvGetInfo con r,
                          Stdout (Sprint e (NoColor g) Bold ''Vendor:'' @ '' '' @ vendor i
                                  @ ''\<newline>''),
                          Stdout (Sprint e (NoColor g) Bold ''Product:'' @ '' '' @ product i
                                  @ ''\<newline>''),
                          Stdout (Sprint e (NoColor g) Bold ''Version:'' @ '' '' @ version i
                                  @ ''\<newline>''),
                          Stdout (Sprint e (NoColor g) Bold ''URL:'' @ '' '' @ url i
                                  @ ''\<newline>''),
                          Stdout (Sprint e (NoColor g) Bold ''Interfaces:'' @ ''\<newline>  ''
                                  @ Join (interfaces i) ''\<newline>  ''
                                  @ ''\<newline>\<newline>'')],
                         Returned))))"

subsection \<open>main (lines 275 to 309)\<close>

text \<open>
  \<open>args\<close> is \<open>os.Args[1:]\<close>. The variable \<open>debug\<close> is bound to the flag \<open>debug\<close> and
  read nowhere. \<open>color.NoColor\<close> is set at line 294 and otherwise keeps the value the
  colour library gave it. When the command returns, \<open>main\<close> returns.
\<close>

definition main :: "env \<Rightarrow> string list \<Rightarrow> run" where
  "main e args =
     (case parseFlags e (printUsage e None []) globalFlags args of
        Inl r \<Rightarrow> r
      | Inr (vals, rest) \<Rightarrow>
          let debug = boolVar vals ''debug'' False;
              bridge = stringVar vals ''bridge'' [];
              colorMode = stringVar vals ''color'' ''auto'';
              noColor = (if colorMode \<noteq> ''on'' \<and> (envTERM e = [] \<or> colorMode = ''off'')
                         then True else initNoColor e);
              g = \<lparr>bridge = bridge,
                   errorBoldRed = Sprint e noColor Bold (Sprint e noColor FgRed ''Error:''),
                   NoColor = noColor\<rparr>
          in if Arg rest 0 = ''info'' then varlinkInfo e g (drop 1 rest)
             else if Arg rest 0 = ''help'' then varlinkHelp e g (drop 1 rest)
             else if Arg rest 0 = ''call'' then varlinkCall e g (drop 1 rest)
             else printUsage e None [])"

subsection \<open>Reading a run\<close>

definition is_stdout :: "event \<Rightarrow> bool" where
  "is_stdout ev = (case ev of Stdout s \<Rightarrow> True | _ \<Rightarrow> False)"

definition is_stderr :: "event \<Rightarrow> bool" where
  "is_stderr ev = (case ev of Stderr s \<Rightarrow> True | _ \<Rightarrow> False)"

text \<open>An attempt to connect: a dialed address or a started bridge.\<close>

definition is_dial :: "event \<Rightarrow> bool" where
  "is_dial ev =
     (case ev of EvNewBridge b r \<Rightarrow> True | EvNewConnection a r \<Rightarrow> True | _ \<Rightarrow> False)"

definition is_send :: "event \<Rightarrow> bool" where
  "is_send ev = (case ev of EvSend c m p fl r \<Rightarrow> True | _ \<Rightarrow> False)"

definition is_recv :: "event \<Rightarrow> bool" where
  "is_recv ev = (case ev of EvRecv r \<Rightarrow> True | _ \<Rightarrow> False)"

text \<open>The connection was established: a dial or a bridge start that succeeded.\<close>

definition is_connected :: "event \<Rightarrow> bool" where
  "is_connected ev =
     (case ev of EvNewBridge b None \<Rightarrow> True | EvNewConnection a None \<Rightarrow> True | _ \<Rightarrow> False)"

subsection \<open>The target resolver as the specification words it\<close>

text \<open>
  The specification's resolver, for the case that no bridge is configured: the string
  must contain a \<open>/\<close>; it is split at the last \<open>/\<close>, everything before it is the
  address and everything after it is the reference. The absence of a \<open>/\<close> is an error
  (\<open>None\<close>). The definition reads the string from its end, where main.go computes an
  index and cuts the string there.
\<close>

definition resolve_reference :: "string \<Rightarrow> (string \<times> string) option" where
  "resolve_reference s =
     (if CHR ''/'' \<notin> set s then None
      else Some (rev (tl (dropWhile (\<lambda>c. c \<noteq> CHR ''/'') (rev s))),
                 rev (takeWhile (\<lambda>c. c \<noteq> CHR ''/'') (rev s))))"

subsection \<open>Command lines that differ in the debug flag\<close>

text \<open>\<open>allFlags fs args\<close>: the parser consumes all of \<open>args\<close> as flags of \<open>fs\<close> (each with
  its value), so that whatever follows \<open>args\<close> on a command line is parsed next.\<close>

function allFlags :: "flagdef list \<Rightarrow> string list \<Rightarrow> bool" where
  "allFlags fs [] = True"
| "allFlags fs (s # args) =
     (case parseOne fs Map.empty (s # args) of
        Seen vals' args' \<Rightarrow> allFlags fs args'
      | _ \<Rightarrow> False)"
  by pat_completeness auto
termination
  by (relation "measure (\<lambda>(fs, args). length args)")
     (auto simp del: parseOne.simps dest: parseOne_Seen_shorter)

text \<open>The values \<open>v\<close> with the values of a result of the parser added.\<close>

definition add_vals :: "flagvals \<Rightarrow> parse_result \<Rightarrow> parse_result" where
  "add_vals v res =
     (case res of
        Parsed u r \<Rightarrow> Parsed (v ++ u) r
      | ParseFailed x \<Rightarrow> ParseFailed x
      | ParseHelp \<Rightarrow> ParseHelp)"

text \<open>Two results of the parser that are the same but for the value of \<open>debug\<close>.\<close>

fun same_but_debug :: "parse_result \<Rightarrow> parse_result \<Rightarrow> bool" where
  "same_but_debug (Parsed v1 r1) (Parsed v2 r2) =
     (r1 = r2 \<and> (\<forall>k. k \<noteq> ''debug'' \<longrightarrow> v1 k = v2 k))"
| "same_but_debug (ParseFailed e1) (ParseFailed e2) = (e1 = e2)"
| "same_but_debug ParseHelp ParseHelp = True"
| "same_but_debug (Parsed v1 r1) (ParseFailed e2) = False"
| "same_but_debug (Parsed v1 r1) ParseHelp = False"
| "same_but_debug (ParseFailed e1) (Parsed v2 r2) = False"
| "same_but_debug (ParseFailed e1) ParseHelp = False"
| "same_but_debug ParseHelp (Parsed v2 r2) = False"
| "same_but_debug ParseHelp (ParseFailed e2) = False"

subsection \<open>An example service\<close>

text \<open>
  A concrete outside world, to run the program on: a service at \<open>/run/sock\<close> whose
  method \<open>org.Foo.Find\<close> answers with the error \<open>org.Foo.NotFound\<close> and the parameters
  \<open>{"id": 5}\<close>, \<open>org.Foo.Gone\<close> with an error without parameters, \<open>org.Foo.Odd\<close> with
  an error whose parameters are not JSON, \<open>org.Foo.Big\<close> with an error whose parameters
  \<open>{"id": 5, "n": 1e999}\<close> hold a number that overflows \<open>float64\<close>, \<open>org.Foo.Quiet\<close>
  with nothing at all, and every other method with a reply. The JSON decoder knows the
  texts \<open>{}\<close> and \<open>{"id": 5}\<close>; on the text with the number \<open>1e999\<close> it does what
  \<open>encoding/json\<close> does: it stores \<open>id\<close>, stores \<open>n\<close> as nil, and returns an error;
  every other text it rejects and leaves the map nil. The formatter writes the members
  on one line, without colours.
\<close>

definition id5 :: string where
  \<open>id5 = ''{"id": 5}''\<close>

definition overflowing :: string where
  \<open>overflowing = ''{"id": 5, "n": 1e999}''\<close>

fun example_value :: "json \<Rightarrow> string" where
  "example_value JNull = ''null''"
| "example_value (JBool b) = (if b then ''true'' else ''false'')"
| "example_value (JNumber s) = s"
| "example_value (JString s) = [CHR 0x22] @ s @ [CHR 0x22]"
| "example_value (JArray xs) = ''[...]''"
| "example_value (JObject ms) = ''{...}''"

definition example_member :: "string \<times> json \<Rightarrow> string" where
  "example_member kv = [CHR 0x22] @ fst kv @ [CHR 0x22] @ '': '' @ example_value (snd kv)"

definition example_recv :: "conn \<Rightarrow> string \<Rightarrow> rawmessage \<Rightarrow> 64 word \<Rightarrow> recv_result" where
  "example_recv c m p fl =
     (if m = ''org.Foo.Find'' then VarlinkError ''org.Foo.NotFound'' (RawMessagePtr (Some id5))
      else if m = ''org.Foo.Gone'' then VarlinkError ''org.Foo.Gone'' (RawMessagePtr None)
      else if m = ''org.Foo.Odd'' then VarlinkError ''org.Foo.Odd'' (RawMessagePtr (Some ''{bad''))
      else if m = ''org.Foo.Big''
        then VarlinkError ''org.Foo.TooBig'' (RawMessagePtr (Some overflowing))
      else if m = ''org.Foo.Quiet'' then NoReturn
      else Reply [(''ok'', JBool True)])"

definition example_env :: env where
  "example_env =
     \<lparr>progName = ''varlink'', envTERM = ''xterm'', initNoColor = False,
      flagNamesChecked = False,
      colorWrap = (\<lambda>a s. [CHR 0x1B] @ (case a of Bold \<Rightarrow> ''[1m'' | FgRed \<Rightarrow> ''[31m''
                                        | FgCyan \<Rightarrow> ''[36m'' | FgMagenta \<Rightarrow> ''[35m'')
                          @ s @ [CHR 0x1B] @ ''[0m''),
      PrintDefaults = (\<lambda>fs. concat (map (\<lambda>(n, d, u). ''  -'' @ n @ ''\<newline>'') fs)),
      flagErrorText = (\<lambda>err. case err of
                         BadFlagSyntax s \<Rightarrow> ''bad flag syntax: '' @ s
                       | NotDefined n \<Rightarrow> ''flag provided but not defined: -'' @ n
                       | InvalidBoolean v n \<Rightarrow> ''invalid boolean value for -'' @ n
                       | NeedsArgument n \<Rightarrow> ''flag needs an argument: -'' @ n),
      NewBridge = (\<lambda>c. None),
      NewConnection = (\<lambda>a. if a = ''/run/sock'' then None else Some ''no such file''),
      Send = (\<lambda>c m p fl. None),
      recv = example_recv,
      GetInterfaceDescription =
        (\<lambda>c i. if i = ''org.Foo'' then Inr ''interface org.Foo'' else Inl ''InterfaceNotFound''),
      GetInfo = (\<lambda>c. case c of
                   BridgeConn b \<Rightarrow> Inl ''broken pipe''
                 | AddressConn a \<Rightarrow>
                     Inr \<lparr>vendor = ''Foo'', product = ''food'', version = ''1'',
                          url = ''http://foo.example'', interfaces = [''org.Foo'']\<rparr>),
      Oneway = 2,
      jsonUnmarshalRaw = (\<lambda>s. if s = ''{}'' \<or> s = id5 then Inr s
                               else Inl ''invalid character''),
      jsonUnmarshalMap =
        (\<lambda>s. if s = ''{}'' then (None, [])
             else if s = id5 then (None, [(''id'', JNumber ''5'')])
             else if s = overflowing then
               (Some ''json: cannot unmarshal number 1e999 into Go value of type float64'',
                [(''id'', JNumber ''5''), (''n'', JNull)])
             else (Some ''invalid character'', [])),
      colorjsonMarshal = (\<lambda>noColor m. ''{'' @ Join (map example_member m) '', '' @ ''}'')\<rparr>"

text \<open>The globals as \<open>main\<close> sets them in that world when no global flag is given, and
  when the bridge \<open>ssh host varlink bridge\<close> is configured.\<close>

definition example_globals :: globals where
  "example_globals =
     \<lparr>bridge = [],
      errorBoldRed = Sprint example_env False Bold (Sprint example_env False FgRed ''Error:''),
      NoColor = False\<rparr>"

definition bridge_globals :: globals where
  "bridge_globals = example_globals\<lparr>bridge := ''ssh host varlink bridge''\<rparr>"

section \<open>Properties\<close>

subsection \<open>Kinds of events\<close>

lemma is_stdout_simps [simp]:
  "is_stdout (Stdout s)" "\<not> is_stdout (Stderr s)" "\<not> is_stdout (EvNewBridge b r1)"
  "\<not> is_stdout (EvNewConnection a r1)" "\<not> is_stdout (EvSend c m p fl r2)"
  "\<not> is_stdout (EvRecv r3)" "\<not> is_stdout (EvGetInterfaceDescription c i r4)"
  "\<not> is_stdout (EvGetInfo c r5)"
  by (simp_all add: is_stdout_def)

lemma is_stderr_simps [simp]:
  "\<not> is_stderr (Stdout s)" "is_stderr (Stderr s)" "\<not> is_stderr (EvNewBridge b r1)"
  "\<not> is_stderr (EvNewConnection a r1)" "\<not> is_stderr (EvSend c m p fl r2)"
  "\<not> is_stderr (EvRecv r3)" "\<not> is_stderr (EvGetInterfaceDescription c i r4)"
  "\<not> is_stderr (EvGetInfo c r5)"
  by (simp_all add: is_stderr_def)

lemma is_dial_simps [simp]:
  "\<not> is_dial (Stdout s)" "\<not> is_dial (Stderr s)" "is_dial (EvNewBridge b r1)"
  "is_dial (EvNewConnection a r1)" "\<not> is_dial (EvSend c m p fl r2)"
  "\<not> is_dial (EvRecv r3)" "\<not> is_dial (EvGetInterfaceDescription c i r4)"
  "\<not> is_dial (EvGetInfo c r5)"
  by (simp_all add: is_dial_def)

lemma is_send_simps [simp]:
  "\<not> is_send (Stdout s)" "\<not> is_send (Stderr s)" "\<not> is_send (EvNewBridge b r1)"
  "\<not> is_send (EvNewConnection a r1)" "is_send (EvSend c m p fl r2)"
  "\<not> is_send (EvRecv r3)" "\<not> is_send (EvGetInterfaceDescription c i r4)"
  "\<not> is_send (EvGetInfo c r5)"
  by (simp_all add: is_send_def)

lemma is_recv_simps [simp]:
  "\<not> is_recv (Stdout s)" "\<not> is_recv (Stderr s)" "\<not> is_recv (EvNewBridge b r1)"
  "\<not> is_recv (EvNewConnection a r1)" "\<not> is_recv (EvSend c m p fl r2)"
  "is_recv (EvRecv r3)" "\<not> is_recv (EvGetInterfaceDescription c i r4)"
  "\<not> is_recv (EvGetInfo c r5)"
  by (simp_all add: is_recv_def)

lemma is_connected_simps [simp]:
  "\<not> is_connected (Stdout s)" "\<not> is_connected (Stderr s)"
  "is_connected (EvNewBridge b r1) = (r1 = None)"
  "is_connected (EvNewConnection a r1) = (r1 = None)" "\<not> is_connected (EvSend c m p fl r2)"
  "\<not> is_connected (EvRecv r3)" "\<not> is_connected (EvGetInterfaceDescription c i r4)"
  "\<not> is_connected (EvGetInfo c r5)"
  by (simp_all add: is_connected_def split: option.splits)




subsection \<open>The usage message\<close>

lemma printUsage_exit: "snd (printUsage e s a) = Exit 1"
  by (simp add: printUsage_def)

lemma printUsage_stderr: "ev \<in> set (fst (printUsage e s a)) \<Longrightarrow> is_stderr ev"
  by (auto simp: printUsage_def split: option.splits)

lemma printUsage_all_stderr: "list_all is_stderr (fst (printUsage e s a))"
  by (auto simp: printUsage_def split: option.splits)

text \<open>The names of the flags: all can be registered but \<open>-oneway\<close>.\<close>

lemma registers_simps [simp]:
  "registers e globalFlags" "registers e helpFlags" "registers e infoFlags"
  "registers e callFlags = (\<not> flagNamesChecked e)"
  by (simp_all add: registers_def validFlagName_def globalFlags_def helpFlags_def
        infoFlags_def callFlags_def)

lemma registrationPanic_callFlags [simp]:
  "registrationPanic callFlags
     = ''flag '' @ [CHR 0x22] @ ''-oneway'' @ [CHR 0x22] @ '' begins with -''"
  by (simp add: callFlags_def)

lemma parseFlags_Inl_registered:
  "registers e fs \<Longrightarrow> parseFlags e (printUsage e s a) fs args = Inl r \<Longrightarrow>
     list_all is_stderr (fst r) \<and> snd r = Exit 1"
  using printUsage_all_stderr [of e s a]
  by (auto simp: parseFlags_def after_def printUsage_exit split: parse_result.splits)

lemma parseFlags_Inr:
  "parseFlags e usage fs args = Inr (vals, rest) \<Longrightarrow>
     registers e fs \<and> Parse fs Map.empty args = Parsed vals rest"
  by (auto simp: parseFlags_def split: parse_result.splits if_splits)

subsection \<open>The steps of call\<close>

lemma callConnect_Inl:
  "callConnect e g rest = Inl r \<Longrightarrow>
     list_all (\<lambda>ev. is_stderr ev \<or> (is_dial ev \<and> \<not> is_connected ev)) (fst r)
     \<and> (snd r = Exit 1 \<or> snd r = Exit 2)"
  using printUsage_all_stderr [of e "Some (''help'', callFlags)"]
  by (auto simp: callConnect_def Let_def errPrintf_def callUsage_def printUsage_exit list_all_iff
           split: if_splits option.splits)

lemma callConnect_Inr:
  "callConnect e g rest = Inr (evs, con, m) \<Longrightarrow>
     (\<exists>ev. evs = [ev] \<and> is_dial ev \<and> is_connected ev)"
  by (auto simp: callConnect_def Let_def split: if_splits option.splits)

lemma callParams_Inl:
  "callParams e g rest = Inl r \<Longrightarrow> list_all is_stderr (fst r) \<and> snd r = Exit 2"
  by (auto simp: callParams_def Let_def errPrintf_def split: if_splits sum.splits)

lemma callReply_events:
  "\<exists>t. fst (callReply e g con m p fl) = EvRecv (recv e con m p fl) # t
       \<and> list_all (\<lambda>ev. is_stderr ev \<or> is_stdout ev) t"
  by (auto simp: callReply_def Let_def after_def errPrintf_def split: recv_result.splits dyn.splits option.splits)

text \<open>The four ways the body of \<open>varlinkCall\<close> can go.\<close>

lemma varlinkCall_body_cases:
  obtains
    (no_connection) r where "callConnect e g rest = Inl r" "varlinkCall_body e g oneway rest = r"
  | (bad_parameters) evs con m r where
      "callConnect e g rest = Inr (evs, con, m)" "callParams e g rest = Inl r"
      "varlinkCall_body e g oneway rest = after evs r"
  | (send_failed) evs con m p err where
      "callConnect e g rest = Inr (evs, con, m)" "callParams e g rest = Inr p"
      "Send e con m p (if oneway then 0 OR Oneway e else 0) = Some err"
      "varlinkCall_body e g oneway rest =
         (evs @ EvSend con m p (if oneway then 0 OR Oneway e else 0) (Some err)
               # errPrintf g (''Error calling '' @ [CHR 0x27] @ m @ ''': '' @ err @ ''\<newline>''),
          Exit 2)"
  | (sent) evs con m p where
      "callConnect e g rest = Inr (evs, con, m)" "callParams e g rest = Inr p"
      "Send e con m p (if oneway then 0 OR Oneway e else 0) = None"
      "varlinkCall_body e g oneway rest =
         after (evs @ [EvSend con m p (if oneway then 0 OR Oneway e else 0) None])
           (callReply e g con m p (if oneway then 0 OR Oneway e else 0))"
proof (cases "callConnect e g rest")
  case (Inl r)
  then show ?thesis using no_connection by (simp add: varlinkCall_body_def)
next
  case (Inr x)
  obtain evs con m where x: "x = (evs, con, m)" by (cases x)
  show ?thesis
  proof (cases "callParams e g rest")
    case (Inl r)
    with Inr x show ?thesis using bad_parameters by (simp add: varlinkCall_body_def)
  next
    case p: (Inr p)
    show ?thesis
    proof (cases "Send e con m p (if oneway then 0 OR Oneway e else 0)")
      case None
      with Inr x p show ?thesis using sent [of evs con m p]
        by (simp add: varlinkCall_body_def after_def Let_def)
    next
      case (Some err)
      with Inr x p show ?thesis using send_failed [of evs con m p err]
        by (simp add: varlinkCall_body_def after_def Let_def)
    qed
  qed
qed

lemma body_send_flags:
  assumes "EvSend c m p fl r \<in> set (fst (varlinkCall_body e g oneway rest))"
  shows "fl = (if oneway then 0 OR Oneway e else 0)"
proof (cases rule: varlinkCall_body_cases [of e g rest oneway])
  case (no_connection r)
  with callConnect_Inl [of e g rest r] assms show ?thesis by (auto simp: list_all_iff)
next
  case (bad_parameters evs con m r)
  with callConnect_Inr [of e g rest evs con m] callParams_Inl [of e g rest r] assms
  show ?thesis by (auto simp: list_all_iff after_def)
next
  case (send_failed evs con m' p' err)
  with callConnect_Inr [of e g rest evs con m'] assms
  show ?thesis by (auto simp: errPrintf_def)
next
  case (sent evs con m' p')
  with callConnect_Inr [of e g rest evs con m'] assms
    callReply_events [of e g con m' p' "if oneway then 0 OR Oneway e else 0"]
  show ?thesis by (fastforce simp: after_def list_all_iff)
qed

subsection \<open>The oneway flag of call\<close>

text \<open>The parser never stores a value under a name that starts with a minus sign: it
  removes one or two minus signs and rejects a name that still starts with one.\<close>

lemma parseOne_dash_name:
  assumes "parseOne fs vals args = Seen vals' args'" and "k \<noteq> []" and "hd k = CHR ''-''"
  shows "vals' k = vals k"
  using assms
  by (cases args)
     (auto simp: Let_def hd_conv_nth hd_drop_conv_nth
           split: if_splits option.splits flagvalue.splits prod.splits)

lemma Parse_dash_name:
  "Parse fs vals args = Parsed vals' rest \<Longrightarrow> k \<noteq> [] \<Longrightarrow> hd k = CHR ''-''
     \<Longrightarrow> vals' k = vals k"
proof (induction fs vals args rule: Parse.induct)
  case (1 fs vals args)
  show ?case
  proof (cases "parseOne fs vals args")
    case (Seen v a)
    with "1.prems" have "Parse fs v a = Parsed vals' rest"
      by (simp add: Parse.simps [of fs vals args])
    with "1.IH" [OF Seen] "1.prems" have "vals' k = v k" by simp
    with parseOne_dash_name [OF Seen] "1.prems" show ?thesis by simp
  next
    case (NoMoreFlags a)
    with "1.prems" show ?thesis by (simp add: Parse.simps [of fs vals args])
  next
    case (Failed e)
    with "1.prems" show ?thesis by (simp add: Parse.simps [of fs vals args])
  next
    case HelpRequested
    with "1.prems" show ?thesis by (simp add: Parse.simps [of fs vals args])
  qed
qed

lemma oneway_never_set:
  "Parse callFlags Map.empty args = Parsed vals rest \<Longrightarrow> \<not> boolVar vals ''-oneway'' False"
  using Parse_dash_name [of callFlags Map.empty args vals rest "''-oneway''"]
  by (simp add: boolVar_def)

text \<open>The equations that evaluate a run in the example world.\<close>

lemmas example_simps =
  example_env_def example_globals_def bridge_globals_def example_recv_def id5_def
  overflowing_def example_member_def
  Let_def Sprint_def errPrintf_def after_def Arg_def exit_status_def
  printUsage_def callUsage_def helpUsage_def infoUsage_def
  globalFlags_def callFlags_def helpFlags_def infoFlags_def
  parseFlags_def registers_def validFlagName_def Parse.simps ParseBool_def boolVar_def
  stringVar_def
  LastIndex_def

subsection \<open>info without a target\<close>

text \<open>
  C3, as the specification states it: \<open>info\<close> with no address and no bridge fails with
  a usage error and exit code 2 before any connection is attempted. The code ends
  with exit code 1: in the example world, \<open>info\<close> alone on the command line exits
  with 1 and not with 2.
\<close>

theorem info_no_target_counterexample:
  "snd (main example_env [''info'']) = Exit 1
   \<and> exit_status (snd (main example_env [''info''])) \<noteq> Some 2"
  by (simp add: main_def varlinkInfo_def infoConnect_def example_simps)

text \<open>
  C3, amended: when \<open>info\<close> is invoked with no positional address (or an empty one)
  and no bridge is configured, it prints \<open>No ADDRESS or activation or bridge\<close> and the
  usage of the command and exits with code 1; it writes to the diagnostic stream only
  and attempts no connection.
\<close>

theorem info_no_target:
  assumes "bridge g = []"
      and "Parse infoFlags Map.empty args = Parsed vals rest"
      and "\<not> boolVar vals ''help'' False"
      and "Arg rest 0 = []"
  shows "varlinkInfo e g args =
           after (errPrintf g ''No ADDRESS or activation or bridge\<newline>\<newline>'') (infoUsage e)
         \<and> snd (varlinkInfo e g args) = Exit 1
         \<and> list_all is_stderr (fst (varlinkInfo e g args))"
  using assms
  by (auto simp: varlinkInfo_def parseFlags_def infoConnect_def after_def infoUsage_def
        printUsage_exit errPrintf_def is_stderr_def list_all_iff dest: printUsage_stderr)

theorem info_no_target_witness:
  "bridge example_globals = []
   \<and> Parse infoFlags Map.empty [] = Parsed Map.empty []
   \<and> \<not> boolVar Map.empty ''help'' False
   \<and> Arg [] 0 = []
   \<and> snd (varlinkInfo example_env example_globals []) = Exit 1
   \<and> list_all is_stderr (fst (varlinkInfo example_env example_globals []))"
proof -
  have h1: "bridge example_globals = []" by (simp add: example_globals_def)
  have h2: "Parse infoFlags Map.empty [] = Parsed Map.empty []" by (simp add: Parse.simps)
  have h3: "\<not> boolVar Map.empty ''help'' False" by (simp add: boolVar_def)
  have h4: "Arg [] 0 = []" by (simp add: Arg_def)
  from info_no_target [OF h1 h2 h3 h4, of example_env] h1 h2 h3 h4 show ?thesis by blast
qed

subsection \<open>The three ways call can start\<close>

lemma callUsage_all_stderr: "list_all is_stderr (fst (callUsage e))"
  by (simp add: callUsage_def printUsage_all_stderr)

lemma callUsage_exit: "snd (callUsage e) = Exit 1"
  by (simp add: callUsage_def printUsage_exit)

text \<open>The registration of \<open>-oneway\<close> panics, or the flags are rejected, or \<open>-help\<close> was
  given, or the body runs; and the body always runs with \<open>oneway\<close> false.\<close>

lemma varlinkCall_cases:
  obtains
    (panics) "flagNamesChecked e"
      "varlinkCall e g args = ([Stderr (registrationPanic callFlags @ ''\<newline>'')], Panic)"
  | (rejected) r where
      "parseFlags e (callUsage e) callFlags args = Inl r" "varlinkCall e g args = r"
      "list_all is_stderr (fst r)" "snd r = Exit 1"
  | (asked_help) vals rest where
      "Parse callFlags Map.empty args = Parsed vals rest" "boolVar vals ''help'' False"
      "varlinkCall e g args = callUsage e"
  | (runs) vals rest where
      "Parse callFlags Map.empty args = Parsed vals rest" "\<not> boolVar vals ''help'' False"
      "varlinkCall e g args = varlinkCall_body e g False rest"
proof (cases "flagNamesChecked e")
  case True
  then have "varlinkCall e g args
               = ([Stderr (registrationPanic callFlags @ ''\<newline>'')], Panic)"
    by (simp add: varlinkCall_def parseFlags_def)
  with True show ?thesis by (rule panics)
next
  case nocheck: False
  show ?thesis
  proof (cases "parseFlags e (callUsage e) callFlags args")
    case (Inl r)
    with nocheck parseFlags_Inl_registered [of e callFlags _ _ args r] rejected
    show ?thesis by (simp add: varlinkCall_def callUsage_def)
  next
    case (Inr x)
    obtain vals rest where x: "x = (vals, rest)" by (cases x)
    with Inr have P: "Parse callFlags Map.empty args = Parsed vals rest"
      by (simp add: parseFlags_Inr)
    show ?thesis
    proof (cases "boolVar vals ''help'' False")
      case True
      with Inr x P asked_help show ?thesis by (simp add: varlinkCall_def)
    next
      case False
      with Inr x P runs oneway_never_set [OF P] show ?thesis by (simp add: varlinkCall_def)
    qed
  qed
qed

text \<open>
  C4: the call command accepts a \<open>--oneway\<close> option, and supplying it selects oneway
  mode. The code registers the flag under the name \<open>-oneway\<close> (line 54), which no
  argument can name: the parser removes the minus signs of \<open>--oneway\<close> and looks for
  \<open>oneway\<close>. So no command line makes \<open>call\<close> send a request with a flag set. Where
  the flag package checks names the command panics on every command line, after the
  message \<open>flag "-oneway" begins with -\<close> on the diagnostic stream; where it does
  not, \<open>--oneway\<close> (or \<open>-oneway\<close>) ends the command with the message for an undefined
  flag and the usage.
\<close>

theorem oneway_never_selected:
  "(\<forall>c m p fl r. EvSend c m p fl r \<in> set (fst (varlinkCall e g args)) \<longrightarrow> fl = 0)
   \<and> (flagNamesChecked e \<longrightarrow>
        varlinkCall e g args
          = ([Stderr (''flag '' @ [CHR 0x22] @ ''-oneway'' @ [CHR 0x22]
                          @ '' begins with -\<newline>'')],
               Panic))
   \<and> (\<not> flagNamesChecked e \<longrightarrow>
        varlinkCall e g (''--oneway'' # args)
          = after [Stderr (flagErrorText e (NotDefined ''oneway'') @ ''\<newline>'')] (callUsage e)
        \<and> varlinkCall e g (''-oneway'' # args)
          = after [Stderr (flagErrorText e (NotDefined ''oneway'') @ ''\<newline>'')] (callUsage e))"
proof (intro conjI allI impI)
  fix c m p fl r
  assume S: "EvSend c m p fl r \<in> set (fst (varlinkCall e g args))"
  show "fl = 0"
  proof (cases rule: varlinkCall_cases [of e g args])
    case panics
    with S show ?thesis by simp
  next
    case (rejected r')
    with S show ?thesis by (auto simp: list_all_iff)
  next
    case (asked_help vals rest)
    with S callUsage_all_stderr [of e] show ?thesis by (auto simp: list_all_iff)
  next
    case (runs vals rest)
    with S body_send_flags [of c m p fl r e g False rest] show ?thesis by simp
  qed
next
  assume "flagNamesChecked e"
  then show "varlinkCall e g args
          = ([Stderr (''flag '' @ [CHR 0x22] @ ''-oneway'' @ [CHR 0x22]
                          @ '' begins with -\<newline>'')],
               Panic)"
    by (simp add: varlinkCall_def parseFlags_def)
next
  assume u: "\<not> flagNamesChecked e"
  have "Parse callFlags Map.empty (''--oneway'' # args) = ParseFailed (NotDefined ''oneway'')"
    by (subst Parse.simps) (simp add: callFlags_def)
  with u show "varlinkCall e g (''--oneway'' # args)
       = after [Stderr (flagErrorText e (NotDefined ''oneway'') @ ''\<newline>'')] (callUsage e)"
    by (simp add: varlinkCall_def parseFlags_def)
next
  assume u: "\<not> flagNamesChecked e"
  have "Parse callFlags Map.empty (''-oneway'' # args) = ParseFailed (NotDefined ''oneway'')"
    by (subst Parse.simps) (simp add: callFlags_def)
  with u show "varlinkCall e g (''-oneway'' # args)
       = after [Stderr (flagErrorText e (NotDefined ''oneway'') @ ''\<newline>'')] (callUsage e)"
    by (simp add: varlinkCall_def parseFlags_def)
qed

theorem oneway_never_selected_witness:
  "EvSend (AddressConn ''/run/sock'') ''org.Foo.Bar'' None 0 None
     \<in> set (fst (varlinkCall example_env example_globals [''/run/sock/org.Foo.Bar'']))
   \<and> snd (varlinkCall example_env example_globals [''--oneway'', ''/run/sock/org.Foo.Bar''])
       = Exit 1"
proof -
  have "snd (varlinkCall example_env example_globals [''--oneway'', ''/run/sock/org.Foo.Bar''])
          = Exit 1"
    using oneway_never_selected [of example_env example_globals "[''/run/sock/org.Foo.Bar'']"]
    by (simp add: after_def callUsage_exit example_env_def)
  moreover have "EvSend (AddressConn ''/run/sock'') ''org.Foo.Bar'' None 0 None
     \<in> set (fst (varlinkCall example_env example_globals [''/run/sock/org.Foo.Bar'']))"
    by (simp add: varlinkCall_def varlinkCall_body_def callConnect_def callParams_def
          callReply_def example_simps)
  ultimately show ?thesis by simp
qed

subsection \<open>A oneway call and its reply\<close>

text \<open>Whatever the flags of the call are, the body calls the reply accessor after every
  request that was sent (line 128 is not guarded by \<open>oneway\<close>).\<close>

lemma reply_accessor_always_called:
  assumes "EvSend c m p fl None \<in> set (fst (varlinkCall_body e g oneway rest))"
  shows "EvRecv (recv e c m p fl) \<in> set (fst (varlinkCall_body e g oneway rest))"
proof (cases rule: varlinkCall_body_cases [of e g rest oneway])
  case (no_connection r)
  with callConnect_Inl [of e g rest r] assms show ?thesis by (auto simp: list_all_iff)
next
  case (bad_parameters evs con m r)
  with callConnect_Inr [of e g rest evs con m] callParams_Inl [of e g rest r] assms
  show ?thesis by (auto simp: list_all_iff after_def)
next
  case (send_failed evs con m' p' err)
  with callConnect_Inr [of e g rest evs con m'] assms
  show ?thesis by (auto simp: errPrintf_def)
next
  case (sent evs con m' p')
  with callConnect_Inr [of e g rest evs con m'] assms
    callReply_events [of e g con m' p' "if oneway then 0 OR Oneway e else 0"]
  show ?thesis by (fastforce simp: after_def list_all_iff)
qed

text \<open>
  C1: a call with the oneway flag set skips the reply accessor and exits with 0 as soon
  as the request is sent, even if the remote never responds. The code does neither.
  On the command line \<open>call --oneway /run/sock/org.Foo.Quiet\<close>, against a service that
  never answers that method, the program sends nothing: it writes to the diagnostic
  stream and exits with 1, since the flag is not defined under that name (and where
  the flag package checks names, it prints \<open>flag "-oneway" begins with -\<close> and panics
  before it reads the arguments of the command). And the body of the command, run with
  \<open>oneway\<close> true, sends the request with the oneway flag and then calls the reply
  accessor, where it waits forever.
\<close>

theorem oneway_call_waits_for_reply:
  "snd (main example_env [''call'', ''--oneway'', ''/run/sock/org.Foo.Quiet'']) = Exit 1
   \<and> list_all is_stderr
        (fst (main example_env [''call'', ''--oneway'', ''/run/sock/org.Foo.Quiet'']))
   \<and> main (example_env\<lparr>flagNamesChecked := True\<rparr>)
        [''call'', ''--oneway'', ''/run/sock/org.Foo.Quiet'']
       = ([Stderr (''flag '' @ [CHR 0x22] @ ''-oneway'' @ [CHR 0x22]
                   @ '' begins with -\<newline>'')],
          Panic)
   \<and> varlinkCall_body example_env example_globals True [''/run/sock/org.Foo.Quiet'']
       = ([EvNewConnection ''/run/sock'' None,
           EvSend (AddressConn ''/run/sock'') ''org.Foo.Quiet'' None 2 None,
           EvRecv NoReturn],
          Blocked)"
  by (simp add: main_def varlinkCall_def varlinkCall_body_def callConnect_def callParams_def
          callReply_def example_simps)

theorem oneway_call_waits_for_reply_witness:
  "exit_status (snd (main example_env [''call'', ''--oneway'', ''/run/sock/org.Foo.Quiet'']))
     = Some 1
   \<and> exit_status
        (snd (varlinkCall_body example_env example_globals True [''/run/sock/org.Foo.Quiet'']))
     = None"
  using oneway_call_waits_for_reply by (simp add: exit_status_def)

subsection \<open>What the body of call sends and receives\<close>

lemma body_send:
  assumes "EvSend c m p fl r \<in> set (fst (varlinkCall_body e g oneway rest))"
  shows "\<exists>evs. callConnect e g rest = Inr (evs, c, m) \<and> callParams e g rest = Inr p
           \<and> fl = (if oneway then 0 OR Oneway e else 0) \<and> r = Send e c m p fl"
proof (cases rule: varlinkCall_body_cases [of e g rest oneway])
  case (no_connection r)
  with callConnect_Inl [of e g rest r] assms show ?thesis by (auto simp: list_all_iff)
next
  case (bad_parameters evs con m r)
  with callConnect_Inr [of e g rest evs con m] callParams_Inl [of e g rest r] assms
  show ?thesis by (auto simp: list_all_iff after_def)
next
  case (send_failed evs con m' p' err)
  with callConnect_Inr [of e g rest evs con m'] assms
  show ?thesis by (auto simp: errPrintf_def)
next
  case (sent evs con m' p')
  with callConnect_Inr [of e g rest evs con m'] assms
    callReply_events [of e g con m' p' "if oneway then 0 OR Oneway e else 0"]
  show ?thesis by (fastforce simp: after_def list_all_iff)
qed



lemma call_send:
  assumes "Parse callFlags Map.empty args = Parsed vals rest"
      and "EvSend c m p fl r \<in> set (fst (varlinkCall e g args))"
  shows "callParams e g rest = Inr p"
proof (cases rule: varlinkCall_cases [of e g args])
  case panics
  with assms show ?thesis by simp
next
  case (rejected r')
  with assms show ?thesis by (auto simp: list_all_iff)
next
  case (asked_help vals' rest')
  with assms callUsage_all_stderr [of e] show ?thesis by (auto simp: list_all_iff)
next
  case (runs vals' rest')
  with assms body_send [of c m p fl r e g False rest] show ?thesis by auto
qed

subsection \<open>The parameters of a call\<close>

text \<open>
  C7: an empty parameter string is encoded as absent parameters (nil), which is a
  different request from the one for the literal string \<open>{}\<close>. For every request that
  \<open>call\<close> hands to \<open>Send\<close>: when the parameter string is empty the parameters are nil,
  and when it is not they are the \<open>json.RawMessage\<close> that \<open>json.Unmarshal\<close> produced
  from the string, which is never nil. So the empty string and \<open>{}\<close> never give the
  same request.
\<close>

theorem empty_parameters_sent_as_absent:
  assumes "Parse callFlags Map.empty args = Parsed vals rest"
      and "EvSend c m p fl r \<in> set (fst (varlinkCall e g args))"
  shows "(Arg rest 1 = [] \<longrightarrow> p = None)
       \<and> (Arg rest 1 \<noteq> [] \<longrightarrow> (\<exists>raw. jsonUnmarshalRaw e (Arg rest 1) = Inr raw \<and> p = Some raw))"
  using call_send [OF assms]
  by (auto simp: callParams_def Let_def split: if_splits sum.splits)

theorem empty_parameters_sent_as_absent_witness:
  "Parse callFlags Map.empty [''/run/sock/org.Foo.Bar''] = Parsed Map.empty [''/run/sock/org.Foo.Bar'']
   \<and> EvSend (AddressConn ''/run/sock'') ''org.Foo.Bar'' None 0 None
        \<in> set (fst (varlinkCall example_env example_globals [''/run/sock/org.Foo.Bar'']))
   \<and> Arg [''/run/sock/org.Foo.Bar''] 1 = []
   \<and> Parse callFlags Map.empty [''/run/sock/org.Foo.Bar'', ''{}'']
        = Parsed Map.empty [''/run/sock/org.Foo.Bar'', ''{}'']
   \<and> EvSend (AddressConn ''/run/sock'') ''org.Foo.Bar'' (Some ''{}'') 0 None
        \<in> set (fst (varlinkCall example_env example_globals [''/run/sock/org.Foo.Bar'', ''{}'']))
   \<and> Arg [''/run/sock/org.Foo.Bar'', ''{}''] 1 = ''{}''
   \<and> jsonUnmarshalRaw example_env ''{}'' = Inr ''{}''"
proof -
  have p1: "Parse callFlags Map.empty [''/run/sock/org.Foo.Bar''] = Parsed Map.empty [''/run/sock/org.Foo.Bar'']"
    by (simp add: Parse.simps)
  have s1: "EvSend (AddressConn ''/run/sock'') ''org.Foo.Bar'' None 0 None
        \<in> set (fst (varlinkCall example_env example_globals [''/run/sock/org.Foo.Bar'']))"
    by (simp add: varlinkCall_def varlinkCall_body_def callConnect_def callParams_def
          callReply_def example_simps)
  have p2: "Parse callFlags Map.empty [''/run/sock/org.Foo.Bar'', ''{}'']
        = Parsed Map.empty [''/run/sock/org.Foo.Bar'', ''{}'']"
    by (simp add: Parse.simps)
  have s2: "EvSend (AddressConn ''/run/sock'') ''org.Foo.Bar'' (Some ''{}'') 0 None
        \<in> set (fst (varlinkCall example_env example_globals [''/run/sock/org.Foo.Bar'', ''{}'']))"
    by (simp add: varlinkCall_def varlinkCall_body_def callConnect_def callParams_def
          callReply_def example_simps)
  from empty_parameters_sent_as_absent [OF p1 s1] empty_parameters_sent_as_absent [OF p2 s2]
    p1 s1 p2 s2
  show ?thesis by (simp add: Arg_def)
qed





subsection \<open>The reply of a call\<close>



subsection \<open>Error parameters that cannot be decoded\<close>




subsection \<open>Connections through a bridge\<close>

lemma callConnect_bridge:
  "bridge g \<noteq> [] \<Longrightarrow>
     callConnect e g rest =
       (case NewBridge e (bridge g) of
          Some err \<Rightarrow>
            Inl (EvNewBridge (bridge g) (Some err)
                 # errPrintf g (''Cannot connect with bridge '' @ [CHR 0x27] @ bridge g
                                @ ''': '' @ err @ ''\<newline>''),
                 Exit 2)
        | None \<Rightarrow> Inr ([EvNewBridge (bridge g) None], BridgeConn (bridge g), Arg rest 0))"
  by (simp add: callConnect_def)

lemma printUsage_events [simp]:
  "Stdout s \<notin> set (fst (printUsage e fl u))"
  "EvNewBridge b r1 \<notin> set (fst (printUsage e fl u))"
  "EvNewConnection a r1 \<notin> set (fst (printUsage e fl u))"
  "EvSend c m p w r2 \<notin> set (fst (printUsage e fl u))"
  "EvRecv r3 \<notin> set (fst (printUsage e fl u))"
  "EvGetInterfaceDescription c i r4 \<notin> set (fst (printUsage e fl u))"
  "EvGetInfo c r5 \<notin> set (fst (printUsage e fl u))"
  using printUsage_stderr [of _ e fl u] by fastforce+

lemma call_bridge_no_address:
  assumes "bridge g \<noteq> []"
  shows "EvNewConnection a r \<notin> set (fst (varlinkCall e g args))"
proof (cases rule: varlinkCall_cases [of e g args])
  case panics
  then show ?thesis by simp
next
  case (rejected r')
  then show ?thesis by (auto simp: list_all_iff)
next
  case (asked_help vals rest)
  then show ?thesis by (simp add: callUsage_def)
next
  case (runs vals rest)
  have "EvNewConnection a r \<notin> set (fst (varlinkCall_body e g False rest))"
  proof (cases rule: varlinkCall_body_cases [of e g rest False])
    case (no_connection r')
    from no_connection(1) assms have "EvNewConnection a r \<notin> set (fst r')"
      by (auto simp: callConnect_bridge errPrintf_def split: option.splits)
    with no_connection show ?thesis by simp
  next
    case (bad_parameters evs con m r')
    from bad_parameters(1) assms callParams_Inl [OF bad_parameters(2)]
    have "EvNewConnection a r \<notin> set (evs @ fst r')"
      by (auto simp: callConnect_bridge list_all_iff split: option.splits)
    with bad_parameters show ?thesis by (simp add: after_def)
  next
    case (send_failed evs con m p err)
    from send_failed(1) assms have "EvNewConnection a r \<notin> set evs"
      by (auto simp: callConnect_bridge split: option.splits)
    with send_failed show ?thesis by (simp add: errPrintf_def)
  next
    case (sent evs con m p)
    from sent(1) assms have "EvNewConnection a r \<notin> set evs"
      by (auto simp: callConnect_bridge split: option.splits)
    with sent callReply_events [of e g con m p 0] show ?thesis
      by (fastforce simp: after_def list_all_iff)
  qed
  with runs show ?thesis by simp
qed

subsection \<open>The steps of help and info\<close>

lemma helpUsage_events [simp]:
  "Stdout s \<notin> set (fst (helpUsage e))"
  "EvNewBridge b r1 \<notin> set (fst (helpUsage e))"
  "EvNewConnection a r1 \<notin> set (fst (helpUsage e))"
  "EvGetInterfaceDescription c i r4 \<notin> set (fst (helpUsage e))"
  by (simp_all add: helpUsage_def)

lemma infoUsage_events [simp]:
  "Stdout s \<notin> set (fst (infoUsage e))"
  "EvNewBridge b r1 \<notin> set (fst (infoUsage e))"
  "EvNewConnection a r1 \<notin> set (fst (infoUsage e))"
  "EvGetInfo c r5 \<notin> set (fst (infoUsage e))"
  by (simp_all add: infoUsage_def)

text \<open>The ways \<open>help\<close> can go.\<close>

lemma varlinkHelp_cases:
  obtains
    (rejected) r where
      "parseFlags e (helpUsage e) helpFlags args = Inl r" "varlinkHelp e g args = r"
      "list_all is_stderr (fst r)" "snd r = Exit 1"
  | (asked_help) vals rest where
      "Parse helpFlags Map.empty args = Parsed vals rest" "boolVar vals ''help'' False"
      "varlinkHelp e g args = helpUsage e"
  | (no_connection) vals rest r where
      "Parse helpFlags Map.empty args = Parsed vals rest" "\<not> boolVar vals ''help'' False"
      "helpConnect e g rest = Inl r" "varlinkHelp e g args = r"
  | (connected) vals rest evs con interfaceName where
      "Parse helpFlags Map.empty args = Parsed vals rest" "\<not> boolVar vals ''help'' False"
      "helpConnect e g rest = Inr (evs, con, interfaceName)"
      "varlinkHelp e g args
         = (evs @ EvGetInterfaceDescription con interfaceName
                    (GetInterfaceDescription e con interfaceName)
                # (case GetInterfaceDescription e con interfaceName of
                     Inl err \<Rightarrow>
                       errPrintf g (''Cannot get interface description for '' @ [CHR 0x27]
                                    @ interfaceName @ ''': '' @ err @ ''\<newline>'')
                   | Inr description \<Rightarrow> [Stdout (description @ ''\<newline>'')]),
            case GetInterfaceDescription e con interfaceName of
              Inl err \<Rightarrow> Exit 2 | Inr description \<Rightarrow> Returned)"
proof (cases "parseFlags e (helpUsage e) helpFlags args")
  case (Inl r)
  with parseFlags_Inl_registered [of e helpFlags _ _ args r] rejected show ?thesis
    by (simp add: varlinkHelp_def helpUsage_def)
next
  case (Inr x)
  obtain vals rest where x: "x = (vals, rest)" by (cases x)
  with Inr have P: "Parse helpFlags Map.empty args = Parsed vals rest"
    by (simp add: parseFlags_Inr)
  show ?thesis
  proof (cases "boolVar vals ''help'' False")
    case True
    with Inr x P asked_help show ?thesis by (simp add: varlinkHelp_def)
  next
    case False
    show ?thesis
    proof (cases "helpConnect e g rest")
      case (Inl r)
      with Inr x P False no_connection show ?thesis by (simp add: varlinkHelp_def)
    next
      case c: (Inr y)
      obtain evs con interfaceName where y: "y = (evs, con, interfaceName)" by (cases y)
      with Inr x P False c connected [of vals rest evs con interfaceName] show ?thesis
        by (simp add: varlinkHelp_def after_def Let_def split: sum.splits)
    qed
  qed
qed

text \<open>The ways \<open>info\<close> can go.\<close>

lemma varlinkInfo_cases:
  obtains
    (rejected) r where
      "parseFlags e (infoUsage e) infoFlags args = Inl r" "varlinkInfo e g args = r"
      "list_all is_stderr (fst r)" "snd r = Exit 1"
  | (asked_help) vals rest where
      "Parse infoFlags Map.empty args = Parsed vals rest" "boolVar vals ''help'' False"
      "varlinkInfo e g args = infoUsage e"
  | (no_connection) vals rest r where
      "Parse infoFlags Map.empty args = Parsed vals rest" "\<not> boolVar vals ''help'' False"
      "infoConnect e g rest = Inl r" "varlinkInfo e g args = r"
  | (info_failed) vals rest evs con address err where
      "Parse infoFlags Map.empty args = Parsed vals rest" "\<not> boolVar vals ''help'' False"
      "infoConnect e g rest = Inr (evs, con, address)" "GetInfo e con = Inl err"
      "varlinkInfo e g args
         = (evs @ EvGetInfo con (Inl err)
                # errPrintf g (''Cannot get info for '' @ [CHR 0x27] @ address
                               @ ''': '' @ err @ ''\<newline>''),
            Exit 2)"
  | (info_shown) vals rest evs con address i where
      "Parse infoFlags Map.empty args = Parsed vals rest" "\<not> boolVar vals ''help'' False"
      "infoConnect e g rest = Inr (evs, con, address)" "GetInfo e con = Inr i"
      "\<exists>out. varlinkInfo e g args = (evs @ EvGetInfo con (Inr i) # out, Returned)
             \<and> list_all is_stdout out"
proof (cases "parseFlags e (infoUsage e) infoFlags args")
  case (Inl r)
  with parseFlags_Inl_registered [of e infoFlags _ _ args r] rejected show ?thesis
    by (simp add: varlinkInfo_def infoUsage_def)
next
  case (Inr x)
  obtain vals rest where x: "x = (vals, rest)" by (cases x)
  with Inr have P: "Parse infoFlags Map.empty args = Parsed vals rest"
    by (simp add: parseFlags_Inr)
  show ?thesis
  proof (cases "boolVar vals ''help'' False")
    case True
    with Inr x P asked_help show ?thesis by (simp add: varlinkInfo_def)
  next
    case False
    show ?thesis
    proof (cases "infoConnect e g rest")
      case (Inl r)
      with Inr x P False no_connection show ?thesis by (simp add: varlinkInfo_def)
    next
      case c: (Inr y)
      obtain evs con address where y: "y = (evs, con, address)" by (cases y)
      show ?thesis
      proof (cases "GetInfo e con")
        case (Inl err)
        with Inr x P False c y info_failed [of vals rest evs con address err] show ?thesis
          by (simp add: varlinkInfo_def after_def Let_def)
      next
        case i: (Inr i)
        with Inr x P False c y info_shown [of vals rest evs con address i] show ?thesis
          by (simp add: varlinkInfo_def after_def Let_def)
      qed
    qed
  qed
qed

subsection \<open>help and info through a bridge\<close>

lemma helpConnect_bridge:
  "bridge g \<noteq> [] \<Longrightarrow>
     helpConnect e g rest =
       (case NewBridge e (bridge g) of
          Some err \<Rightarrow>
            Inl (EvNewBridge (bridge g) (Some err)
                 # errPrintf g (''Cannot connect with bridge '' @ [CHR 0x27] @ bridge g
                                @ ''': '' @ err @ ''\<newline>''),
                 Exit 2)
        | None \<Rightarrow> Inr ([EvNewBridge (bridge g) None], BridgeConn (bridge g), Arg rest 0))"
  by (simp add: helpConnect_def)

lemma infoConnect_bridge:
  "bridge g \<noteq> [] \<Longrightarrow>
     infoConnect e g rest =
       (case NewBridge e (bridge g) of
          Some err \<Rightarrow>
            Inl (EvNewBridge (bridge g) (Some err)
                 # errPrintf g (''Cannot connect with bridge '' @ [CHR 0x27] @ bridge g
                                @ ''': '' @ err @ ''\<newline>''),
                 Exit 2)
        | None \<Rightarrow>
            Inr ([EvNewBridge (bridge g) None], BridgeConn (bridge g), ''bridge:'' @ bridge g))"
  by (simp add: infoConnect_def)

lemma help_bridge_no_address:
  assumes "bridge g \<noteq> []"
  shows "EvNewConnection a r \<notin> set (fst (varlinkHelp e g args))"
proof (cases rule: varlinkHelp_cases [of e args g])
  case (rejected r)
  then show ?thesis by (auto simp: list_all_iff)
next
  case (asked_help vals rest)
  then show ?thesis by simp
next
  case (no_connection vals rest r')
  from no_connection(3) assms(1) have "EvNewConnection a r \<notin> set (fst r')"
    by (auto simp: helpConnect_bridge errPrintf_def split: option.splits)
  with no_connection(4) show ?thesis by simp
next
  case (connected vals rest evs con interfaceName)
  with assms show ?thesis
    by (auto simp: helpConnect_bridge errPrintf_def split: option.splits sum.splits)
qed

lemma help_bridge_interface:
  assumes "bridge g \<noteq> []"
      and P: "Parse helpFlags Map.empty args = Parsed vals rest"
      and E: "EvGetInterfaceDescription c i r' \<in> set (fst (varlinkHelp e g args))"
  shows "c = BridgeConn (bridge g) \<and> i = Arg rest 0"
proof (cases rule: varlinkHelp_cases [of e args g])
  case (rejected r)
  with E show ?thesis by (auto simp: list_all_iff)
next
  case (asked_help vals rest)
  with E show ?thesis by simp
next
  case (no_connection vals' rest' r)
  from no_connection(3) assms(1) have "EvGetInterfaceDescription c i r' \<notin> set (fst r)"
    by (auto simp: helpConnect_bridge errPrintf_def split: option.splits)
  with E no_connection(4) show ?thesis by simp
next
  case (connected vals' rest' evs con interfaceName)
  with assms show ?thesis
    by (auto simp: helpConnect_bridge errPrintf_def split: option.splits sum.splits)
qed

lemma info_bridge_no_address:
  assumes "bridge g \<noteq> []"
  shows "EvNewConnection a r \<notin> set (fst (varlinkInfo e g args))"
proof (cases rule: varlinkInfo_cases [of e args g])
  case (rejected r)
  then show ?thesis by (auto simp: list_all_iff)
next
  case (asked_help vals rest)
  then show ?thesis by simp
next
  case (no_connection vals rest r')
  from no_connection(3) assms(1) have "EvNewConnection a r \<notin> set (fst r')"
    by (auto simp: infoConnect_bridge errPrintf_def split: option.splits)
  with no_connection(4) show ?thesis by simp
next
  case (info_failed vals rest evs con address err)
  with assms show ?thesis
    by (auto simp: infoConnect_bridge errPrintf_def split: option.splits)
next
  case (info_shown vals rest evs con address i)
  with assms show ?thesis
    by (auto simp: infoConnect_bridge list_all_iff split: option.splits)
qed

lemma info_bridge_address:
  assumes "bridge g \<noteq> []"
      and E: "EvGetInfo c (Inl err) \<in> set (fst (varlinkInfo e g args))"
  shows "fst (varlinkInfo e g args)
           = [EvNewBridge (bridge g) None, EvGetInfo (BridgeConn (bridge g)) (Inl err)]
             @ errPrintf g (''Cannot get info for '' @ [CHR 0x27] @ ''bridge:'' @ bridge g
                            @ ''': '' @ err @ ''\<newline>'')"
proof (cases rule: varlinkInfo_cases [of e args g])
  case (rejected r)
  with E show ?thesis by (auto simp: list_all_iff)
next
  case (asked_help vals rest)
  with E show ?thesis by simp
next
  case (no_connection vals rest r)
  from no_connection(3) assms(1) have "EvGetInfo c (Inl err) \<notin> set (fst r)"
    by (auto simp: infoConnect_bridge errPrintf_def split: option.splits)
  with E no_connection(4) show ?thesis by simp
next
  case (info_failed vals rest evs con address err')
  with assms show ?thesis
    by (auto simp: infoConnect_bridge errPrintf_def split: option.splits)
next
  case (info_shown vals rest evs con address i)
  with assms show ?thesis
    by (auto simp: infoConnect_bridge list_all_iff split: option.splits)
qed

text \<open>
  C6: with a non-empty bridge command configured, nothing is split off the positional
  argument. Every request that \<open>call\<close> sends goes to the bridge connection with the
  whole argument as its method name, every interface description that \<open>help\<close> asks
  for goes to the bridge connection with the whole argument as the interface name, and
  the address that \<open>info\<close> shows (in the message about \<open>GetInfo\<close> failing, the one
  place where it is shown) is \<open>bridge:\<close> followed by the bridge command. None of the
  three commands dials an address.
\<close>

theorem bridge_takes_argument_verbatim:
  assumes "bridge g \<noteq> []"
  shows "(\<forall>vals rest c m p fl r.
            Parse callFlags Map.empty args = Parsed vals rest
            \<and> EvSend c m p fl r \<in> set (fst (varlinkCall e g args))
            \<longrightarrow> c = BridgeConn (bridge g) \<and> m = Arg rest 0)
       \<and> (\<forall>vals rest c i r.
            Parse helpFlags Map.empty args = Parsed vals rest
            \<and> EvGetInterfaceDescription c i r \<in> set (fst (varlinkHelp e g args))
            \<longrightarrow> c = BridgeConn (bridge g) \<and> i = Arg rest 0)
       \<and> (\<forall>c err.
            EvGetInfo c (Inl err) \<in> set (fst (varlinkInfo e g args))
            \<longrightarrow> fst (varlinkInfo e g args)
                  = [EvNewBridge (bridge g) None, EvGetInfo (BridgeConn (bridge g)) (Inl err)]
                    @ errPrintf g (''Cannot get info for '' @ [CHR 0x27] @ ''bridge:'' @ bridge g
                                   @ ''': '' @ err @ ''\<newline>''))
       \<and> (\<forall>a r. EvNewConnection a r \<notin> set (fst (varlinkCall e g args))
                \<and> EvNewConnection a r \<notin> set (fst (varlinkHelp e g args))
                \<and> EvNewConnection a r \<notin> set (fst (varlinkInfo e g args)))"
proof (intro conjI allI impI)
  fix vals rest c m p fl r
  assume a: "Parse callFlags Map.empty args = Parsed vals rest
            \<and> EvSend c m p fl r \<in> set (fst (varlinkCall e g args))"
  then have S: "EvSend c m p fl r \<in> set (fst (varlinkCall e g args))" by simp
  have "c = BridgeConn (bridge g) \<and> m = Arg rest 0"
  proof (cases rule: varlinkCall_cases [of e g args])
    case panics
    with S show ?thesis by simp
  next
    case (rejected r')
    with S show ?thesis by (auto simp: list_all_iff)
  next
    case (asked_help vals' rest')
    with S callUsage_all_stderr [of e] show ?thesis by (auto simp: list_all_iff)
  next
    case (runs vals' rest')
    with a have "rest' = rest" by simp
    with runs S body_send [of c m p fl r e g False rest] assms show ?thesis
      by (auto simp: callConnect_bridge split: option.splits)
  qed
  then show "c = BridgeConn (bridge g)" and "m = Arg rest 0" by simp_all
next
  fix vals rest c i r
  assume a: "Parse helpFlags Map.empty args = Parsed vals rest
            \<and> EvGetInterfaceDescription c i r \<in> set (fst (varlinkHelp e g args))"
  with help_bridge_interface [OF assms, of args vals rest c i r e]
  show "c = BridgeConn (bridge g)" and "i = Arg rest 0" by simp_all
next
  fix c err
  assume "EvGetInfo c (Inl err) \<in> set (fst (varlinkInfo e g args))"
  with info_bridge_address [OF assms]
  show "fst (varlinkInfo e g args)
                  = [EvNewBridge (bridge g) None, EvGetInfo (BridgeConn (bridge g)) (Inl err)]
                    @ errPrintf g (''Cannot get info for '' @ [CHR 0x27] @ ''bridge:'' @ bridge g
                                   @ ''': '' @ err @ ''\<newline>'')"
    by simp
next
  fix a r
  show "EvNewConnection a r \<notin> set (fst (varlinkCall e g args))"
    using call_bridge_no_address [OF assms] .
  show "EvNewConnection a r \<notin> set (fst (varlinkHelp e g args))"
    using help_bridge_no_address [OF assms] .
  show "EvNewConnection a r \<notin> set (fst (varlinkInfo e g args))"
    using info_bridge_no_address [OF assms] .
qed

theorem bridge_takes_argument_verbatim_witness:
  "bridge bridge_globals \<noteq> []
   \<and> Parse callFlags Map.empty [''a/b/org.Foo.Bar''] = Parsed Map.empty [''a/b/org.Foo.Bar'']
   \<and> EvSend (BridgeConn ''ssh host varlink bridge'') ''a/b/org.Foo.Bar'' None 0 None
        \<in> set (fst (varlinkCall example_env bridge_globals [''a/b/org.Foo.Bar'']))
   \<and> Parse helpFlags Map.empty [''a/org.Foo''] = Parsed Map.empty [''a/org.Foo'']
   \<and> EvGetInterfaceDescription (BridgeConn ''ssh host varlink bridge'') ''a/org.Foo''
          (Inl ''InterfaceNotFound'')
        \<in> set (fst (varlinkHelp example_env bridge_globals [''a/org.Foo'']))
   \<and> EvGetInfo (BridgeConn ''ssh host varlink bridge'') (Inl ''broken pipe'')
        \<in> set (fst (varlinkInfo example_env bridge_globals []))
   \<and> last (fst (varlinkInfo example_env bridge_globals []))
        = Stderr (''Cannot get info for '' @ [CHR 0x27] @ ''bridge:ssh host varlink bridge''
                  @ ''': broken pipe\<newline>'')
   \<and> EvNewConnection ''a/b'' None \<notin> set (fst (varlinkCall example_env bridge_globals [''a/b/org.Foo.Bar'']))"
proof -
  have b: "bridge bridge_globals \<noteq> []" by (simp add: example_simps)
  have p1: "Parse callFlags Map.empty [''a/b/org.Foo.Bar''] = Parsed Map.empty [''a/b/org.Foo.Bar'']"
    by (simp add: Parse.simps)
  have s1: "EvSend (BridgeConn ''ssh host varlink bridge'') ''a/b/org.Foo.Bar'' None 0 None
        \<in> set (fst (varlinkCall example_env bridge_globals [''a/b/org.Foo.Bar'']))"
    by (simp add: varlinkCall_def varlinkCall_body_def callConnect_def callParams_def
          callReply_def example_simps)
  have p2: "Parse helpFlags Map.empty [''a/org.Foo''] = Parsed Map.empty [''a/org.Foo'']"
    by (simp add: Parse.simps)
  have s2: "EvGetInterfaceDescription (BridgeConn ''ssh host varlink bridge'') ''a/org.Foo''
          (Inl ''InterfaceNotFound'')
        \<in> set (fst (varlinkHelp example_env bridge_globals [''a/org.Foo'']))"
    by (simp add: varlinkHelp_def helpConnect_def example_simps)
  have s3: "EvGetInfo (BridgeConn ''ssh host varlink bridge'') (Inl ''broken pipe'')
        \<in> set (fst (varlinkInfo example_env bridge_globals []))"
    by (simp add: varlinkInfo_def infoConnect_def example_simps)
  have b': "bridge bridge_globals = ''ssh host varlink bridge''" by (simp add: example_simps)
  from bridge_takes_argument_verbatim [OF b, of "[]" example_env] s3
  have "fst (varlinkInfo example_env bridge_globals [])
          = [EvNewBridge (bridge bridge_globals) None,
             EvGetInfo (BridgeConn (bridge bridge_globals)) (Inl ''broken pipe'')]
            @ errPrintf bridge_globals
                (''Cannot get info for '' @ [CHR 0x27] @ ''bridge:'' @ bridge bridge_globals
                 @ ''': '' @ ''broken pipe'' @ ''\<newline>'')"
    by blast
  then have "last (fst (varlinkInfo example_env bridge_globals []))
        = Stderr (''Cannot get info for '' @ [CHR 0x27] @ ''bridge:ssh host varlink bridge''
                  @ ''': broken pipe\<newline>'')"
    by (simp add: b' errPrintf_def)
  moreover from bridge_takes_argument_verbatim [OF b, of "[''a/b/org.Foo.Bar'']" example_env]
  have "EvNewConnection ''a/b'' None \<notin> set (fst (varlinkCall example_env bridge_globals [''a/b/org.Foo.Bar'']))"
    by blast
  ultimately show ?thesis using b p1 s1 p2 s2 s3 by simp
qed

subsection \<open>The target resolver\<close>

lemma lastIndexLoop_absent:
  "c \<notin> set (take n s) \<Longrightarrow> n \<le> length s \<Longrightarrow> lastIndexLoop s c n = -1"
proof (induction n)
  case 0
  then show ?case by simp
next
  case (Suc n)
  then have "s ! n \<noteq> c" by (auto simp: take_Suc_conv_app_nth)
  moreover from Suc have "c \<notin> set (take n s)" by (auto simp: take_Suc_conv_app_nth)
  ultimately show ?case using Suc by simp
qed

lemma lastIndexLoop_last:
  "c \<notin> set r \<Longrightarrow> k \<le> length r \<Longrightarrow>
     lastIndexLoop (a @ c # r) c (Suc (length a) + k) = int (length a)"
proof (induction k)
  case 0
  then show ?case by simp
next
  case (Suc k)
  then have "(a @ c # r) ! (Suc (length a) + k) = r ! k"
    by (simp add: nth_append)
  moreover from Suc have "r ! k \<noteq> c" by (metis Suc_le_lessD nth_mem)
  ultimately show ?case using Suc by simp
qed

lemma LastIndex_absent: "c \<notin> set s \<Longrightarrow> LastIndex s c = -1"
  by (simp add: LastIndex_def lastIndexLoop_absent)

lemma LastIndex_last: "c \<notin> set r \<Longrightarrow> LastIndex (a @ c # r) c = int (length a)"
  using lastIndexLoop_last [of c r "length r" a] by (simp add: LastIndex_def)

lemma resolve_reference_last:
  assumes "CHR ''/'' \<notin> set r"
  shows "resolve_reference (a @ CHR ''/'' # r) = Some (a, r)"
proof -
  have "takeWhile (\<lambda>c. c \<noteq> CHR ''/'') (rev r @ CHR ''/'' # rev a)
          = rev r @ takeWhile (\<lambda>c. c \<noteq> CHR ''/'') (CHR ''/'' # rev a)"
    by (rule takeWhile_append2) (use assms in auto)
  moreover have "dropWhile (\<lambda>c. c \<noteq> CHR ''/'') (rev r @ CHR ''/'' # rev a)
          = dropWhile (\<lambda>c. c \<noteq> CHR ''/'') (CHR ''/'' # rev a)"
    by (rule dropWhile_append2) (use assms in auto)
  ultimately show ?thesis by (simp add: resolve_reference_def)
qed

lemma resolve_reference_None: "resolve_reference s = None \<longleftrightarrow> CHR ''/'' \<notin> set s"
  by (simp add: resolve_reference_def)

lemma resolve_reference_Some:
  "resolve_reference s = Some (a, r) \<longleftrightarrow> s = a @ CHR ''/'' # r \<and> CHR ''/'' \<notin> set r"
proof
  assume h: "resolve_reference s = Some (a, r)"
  then have "CHR ''/'' \<in> set s" by (auto simp: resolve_reference_def split: if_splits)
  then obtain a' r' where s: "s = a' @ CHR ''/'' # r'" and r': "CHR ''/'' \<notin> set r'"
    by (meson split_list_last)
  with h resolve_reference_last [OF r', of a'] show "s = a @ CHR ''/'' # r \<and> CHR ''/'' \<notin> set r"
    by simp
next
  assume "s = a @ CHR ''/'' # r \<and> CHR ''/'' \<notin> set r"
  then show "resolve_reference s = Some (a, r)" by (simp add: resolve_reference_last)
qed

text \<open>What lines 85 to 93 and 192 to 207 compute, against the reference.\<close>

lemma LastIndex_resolve:
  "(case resolve_reference uri of
      None \<Rightarrow> LastIndex uri CHR ''/'' = -1
    | Some (a, r) \<Rightarrow>
        LastIndex uri CHR ''/'' \<noteq> -1
        \<and> take (nat (LastIndex uri CHR ''/'')) uri = a
        \<and> drop (nat (LastIndex uri CHR ''/'' + 1)) uri = r)"
proof (cases "resolve_reference uri")
  case None
  then have "CHR ''/'' \<notin> set uri" by (simp add: resolve_reference_None)
  with None show ?thesis by (simp add: LastIndex_absent)
next
  case (Some x)
  obtain a r where x: "x = (a, r)" by (cases x)
  with Some have "uri = a @ CHR ''/'' # r" and r: "CHR ''/'' \<notin> set r"
    by (simp_all add: resolve_reference_Some)
  with Some x LastIndex_last [OF r, of a] show ?thesis
    by (simp add: nat_add_distrib)
qed

text \<open>
  C5: with no bridge configured, the resolver of \<open>call\<close> and of \<open>help\<close> behaves as
  the reference definition \<open>resolve_reference\<close> on a non-empty argument. Where the
  reference fails (no \<open>/\<close> in the string) the command ends with \<open>Invalid address\<close>
  and exit code 2, without a connection. Where the reference gives an address and a
  reference (the parts before and after the last \<open>/\<close>), the command dials exactly
  that address and goes on with exactly that reference as the method or interface
  name.
\<close>

theorem resolver_splits_at_last_slash:
  assumes "bridge g = []" and "Arg rest 0 = uri" and "uri \<noteq> []"
  shows "(case resolve_reference uri of
            None \<Rightarrow>
              callConnect e g rest
                = Inl (errPrintf g (''Invalid address '' @ [CHR 0x27] @ uri @ '''\<newline>''), Exit 2)
              \<and> helpConnect e g rest
                = Inl (errPrintf g (''Invalid address '' @ [CHR 0x27] @ uri @ '''\<newline>''), Exit 2)
          | Some (address, reference) \<Rightarrow>
              uri = address @ ''/'' @ reference \<and> CHR ''/'' \<notin> set reference
              \<and> (case NewConnection e address of
                    Some err \<Rightarrow>
                      callConnect e g rest
                        = Inl (EvNewConnection address (Some err)
                               # errPrintf g (''Cannot connect to '' @ [CHR 0x27] @ address
                                              @ ''': '' @ err @ ''\<newline>''),
                               Exit 2)
                      \<and> helpConnect e g rest = callConnect e g rest
                  | None \<Rightarrow>
                      callConnect e g rest
                        = Inr ([EvNewConnection address None], AddressConn address, reference)
                      \<and> helpConnect e g rest = callConnect e g rest))"
proof (cases "resolve_reference uri")
  case None
  with LastIndex_resolve [of uri] assms show ?thesis
    by (simp add: callConnect_def helpConnect_def)
next
  case (Some x)
  obtain a r where x: "x = (a, r)" by (cases x)
  from Some x have u: "uri = a @ ''/'' @ r \<and> CHR ''/'' \<notin> set r"
    by (simp add: resolve_reference_Some)
  from Some x LastIndex_resolve [of uri]
  have L: "LastIndex uri CHR ''/'' \<noteq> -1"
    and T: "take (nat (LastIndex uri CHR ''/'')) uri = a"
    and D: "drop (nat (LastIndex uri CHR ''/'' + 1)) uri = r"
    by simp_all
  from assms L T D have "callConnect e g rest =
      (case NewConnection e a of
         Some err \<Rightarrow> Inl (EvNewConnection a (Some err)
                               # errPrintf g (''Cannot connect to '' @ [CHR 0x27] @ a
                                              @ ''': '' @ err @ ''\<newline>''),
                               Exit 2)
       | None \<Rightarrow> Inr ([EvNewConnection a None], AddressConn a, r))"
    by (simp add: callConnect_def Let_def split: option.splits)
  moreover from assms L T D have "helpConnect e g rest =
      (case NewConnection e a of
         Some err \<Rightarrow> Inl (EvNewConnection a (Some err)
                               # errPrintf g (''Cannot connect to '' @ [CHR 0x27] @ a
                                              @ ''': '' @ err @ ''\<newline>''),
                               Exit 2)
       | None \<Rightarrow> Inr ([EvNewConnection a None], AddressConn a, r))"
    by (simp add: helpConnect_def Let_def split: option.splits)
  ultimately show ?thesis using Some x u by (simp split: option.splits)
qed

theorem resolver_splits_at_last_slash_witness:
  "bridge example_globals = []
   \<and> Arg [''/run/sock/org.Foo.Bar''] 0 = ''/run/sock/org.Foo.Bar''
   \<and> resolve_reference ''/run/sock/org.Foo.Bar'' = Some (''/run/sock'', ''org.Foo.Bar'')
   \<and> callConnect example_env example_globals [''/run/sock/org.Foo.Bar'']
       = Inr ([EvNewConnection ''/run/sock'' None], AddressConn ''/run/sock'', ''org.Foo.Bar'')
   \<and> helpConnect example_env example_globals [''/run/sock/org.Foo.Bar'']
       = Inr ([EvNewConnection ''/run/sock'' None], AddressConn ''/run/sock'', ''org.Foo.Bar'')
   \<and> Arg [''org.Foo.Bar''] 0 = ''org.Foo.Bar''
   \<and> resolve_reference ''org.Foo.Bar'' = None
   \<and> snd (varlinkCall example_env example_globals [''org.Foo.Bar'']) = Exit 2"
proof -
  have b: "bridge example_globals = []" by (simp add: example_simps)
  have a1: "Arg [''/run/sock/org.Foo.Bar''] 0 = ''/run/sock/org.Foo.Bar''" by (simp add: Arg_def)
  have n1: "''/run/sock/org.Foo.Bar'' \<noteq> []" by simp
  have r1: "resolve_reference ''/run/sock/org.Foo.Bar'' = Some (''/run/sock'', ''org.Foo.Bar'')"
    by (simp add: resolve_reference_def)
  have c1: "NewConnection example_env ''/run/sock'' = None" by (simp add: example_simps)
  have a2: "Arg [''org.Foo.Bar''] 0 = ''org.Foo.Bar''" by (simp add: Arg_def)
  have n2: "''org.Foo.Bar'' \<noteq> []" by simp
  have r2: "resolve_reference ''org.Foo.Bar'' = None" by (simp add: resolve_reference_def)
  have p2: "Parse callFlags Map.empty [''org.Foo.Bar''] = Parsed Map.empty [''org.Foo.Bar'']"
    by (simp add: Parse.simps)
  from resolver_splits_at_last_slash [OF b a1 n1, of example_env] r1 c1
  have k1: "callConnect example_env example_globals [''/run/sock/org.Foo.Bar'']
       = Inr ([EvNewConnection ''/run/sock'' None], AddressConn ''/run/sock'', ''org.Foo.Bar'')
   \<and> helpConnect example_env example_globals [''/run/sock/org.Foo.Bar'']
       = Inr ([EvNewConnection ''/run/sock'' None], AddressConn ''/run/sock'', ''org.Foo.Bar'')"
    by simp
  from resolver_splits_at_last_slash [OF b a2 n2, of example_env] r2
  have "callConnect example_env example_globals [''org.Foo.Bar'']
          = Inl (errPrintf example_globals
                   (''Invalid address '' @ [CHR 0x27] @ ''org.Foo.Bar'' @ '''\<newline>''), Exit 2)"
    by simp
  with p2 have k2: "snd (varlinkCall example_env example_globals [''org.Foo.Bar'']) = Exit 2"
    by (simp add: varlinkCall_def parseFlags_def varlinkCall_body_def boolVar_def
          example_env_def)
  from b a1 r1 k1 a2 r2 k2 show ?thesis by simp
qed

subsection \<open>The debug flag\<close>

text \<open>What \<open>parseOne\<close> does with an argument list, whatever values are stored: it stops,
  fails, asks for the usage, or stores one value under one name; and a flag that is
  seen is seen in the same way when more arguments follow.\<close>

lemma parseOne_cases:
  obtains
    (stop) r where "\<And>v. parseOne fs v args = NoMoreFlags r"
  | (fail) x where "\<And>v. parseOne fs v args = Failed x"
  | (usage) "\<And>v. parseOne fs v args = HelpRequested"
  | (seen) n x r where
      "\<And>v rest. parseOne fs v (args @ rest) = Seen (v(n \<mapsto> x)) (r @ rest)"
proof (cases args)
  case Nil
  then have "\<And>v. parseOne fs v args = NoMoreFlags []" by simp
  then show ?thesis by (rule stop)
next
  case (Cons s as)
  define name0 where "name0 = drop (if s ! 1 = CHR ''-'' then 2 else 1 :: nat) s"
  define hasValue where "hasValue = (CHR ''='' \<in> set (tl name0))"
  define val where "val = tl (dropWhile (\<lambda>c. c \<noteq> CHR ''='') (tl name0))"
  define name where "name = hd name0 # takeWhile (\<lambda>c. c \<noteq> CHR ''='') (tl name0)"
  have shape: "parseOne fs v (s # xs) =
     (if length s < 2 \<or> s ! 0 \<noteq> CHR ''-'' then NoMoreFlags (s # xs)
      else if s ! 1 = CHR ''-'' \<and> length s = 2 then NoMoreFlags xs
      else if length name0 = 0 \<or> name0 ! 0 = CHR ''-'' \<or> name0 ! 0 = CHR ''=''
           then Failed (BadFlagSyntax s)
           else case map_of fs name of
                  None \<Rightarrow>
                    if name = ''help'' \<or> name = ''h'' then HelpRequested
                    else Failed (NotDefined name)
                | Some (BoolV d, u) \<Rightarrow>
                    if hasValue then
                      (case ParseBool val of
                         None \<Rightarrow> Failed (InvalidBoolean val name)
                       | Some b \<Rightarrow> Seen (v(name \<mapsto> BoolV b)) xs)
                    else Seen (v(name \<mapsto> BoolV True)) xs
                | Some (StringV d, u) \<Rightarrow>
                    if \<not> hasValue \<and> length xs > 0
                    then Seen (v(name \<mapsto> StringV (hd xs))) (tl xs)
                    else if \<not> hasValue then Failed (NeedsArgument name)
                    else Seen (v(name \<mapsto> StringV val)) xs)" for v xs
    unfolding parseOne.simps Let_def name0_def hasValue_def val_def name_def ..
  show ?thesis
  proof (cases "length s < 2 \<or> s ! 0 \<noteq> CHR ''-''")
    case True
    then have "\<And>v. parseOne fs v args = NoMoreFlags (s # as)"
      unfolding Cons shape by simp
    then show ?thesis by (rule stop)
  next
    case c1: False
    show ?thesis
    proof (cases "s ! 1 = CHR ''-'' \<and> length s = 2")
      case True
      with c1 have "\<And>v. parseOne fs v args = NoMoreFlags as"
        unfolding Cons shape by simp
      then show ?thesis by (rule stop)
    next
      case c2: False
      show ?thesis
      proof (cases "length name0 = 0 \<or> name0 ! 0 = CHR ''-'' \<or> name0 ! 0 = CHR ''=''")
        case True
        with c1 c2 have "\<And>v. parseOne fs v args = Failed (BadFlagSyntax s)"
          unfolding Cons shape by simp
        then show ?thesis by (rule fail)
      next
        case c3: False
        have rest: "parseOne fs v (s # xs) =
           (case map_of fs name of
                  None \<Rightarrow>
                    if name = ''help'' \<or> name = ''h'' then HelpRequested
                    else Failed (NotDefined name)
                | Some (BoolV d, u) \<Rightarrow>
                    if hasValue then
                      (case ParseBool val of
                         None \<Rightarrow> Failed (InvalidBoolean val name)
                       | Some b \<Rightarrow> Seen (v(name \<mapsto> BoolV b)) xs)
                    else Seen (v(name \<mapsto> BoolV True)) xs
                | Some (StringV d, u) \<Rightarrow>
                    if \<not> hasValue \<and> length xs > 0
                    then Seen (v(name \<mapsto> StringV (hd xs))) (tl xs)
                    else if \<not> hasValue then Failed (NeedsArgument name)
                    else Seen (v(name \<mapsto> StringV val)) xs)" for v xs
          using c1 c2 c3 unfolding shape by (simp only: if_False)
        show ?thesis
        proof (cases "map_of fs name")
          case None
          show ?thesis
          proof (cases "name = ''help'' \<or> name = ''h''")
            case True
            with None have "\<And>v. parseOne fs v args = HelpRequested"
              unfolding Cons rest by simp
            then show ?thesis by (rule usage)
          next
            case False
            with None have "\<And>v. parseOne fs v args = Failed (NotDefined name)"
              unfolding Cons rest by simp
            then show ?thesis by (rule fail)
          qed
        next
          case (Some du)
          obtain d u where du: "du = (d, u)" by (cases du)
          show ?thesis
          proof (cases d)
            case (BoolV b0)
            show ?thesis
            proof (cases hasValue)
              case True
              show ?thesis
              proof (cases "ParseBool val")
                case None
                with Some du BoolV True
                have "\<And>v. parseOne fs v args = Failed (InvalidBoolean val name)"
                  unfolding Cons rest by simp
                then show ?thesis by (rule fail)
              next
                case (Some b)
                with \<open>map_of fs name = Some du\<close> du BoolV True
                have "\<And>v rest. parseOne fs v (args @ rest)
                        = Seen (v(name \<mapsto> BoolV b)) (as @ rest)"
                  unfolding Cons append_Cons rest by simp
                then show ?thesis by (rule seen)
              qed
            next
              case False
              with Some du BoolV
              have "\<And>v rest. parseOne fs v (args @ rest)
                      = Seen (v(name \<mapsto> BoolV True)) (as @ rest)"
                unfolding Cons append_Cons rest by simp
              then show ?thesis by (rule seen)
            qed
          next
            case (StringV s0)
            show ?thesis
            proof (cases hasValue)
              case True
              with Some du StringV
              have "\<And>v rest. parseOne fs v (args @ rest)
                      = Seen (v(name \<mapsto> StringV val)) (as @ rest)"
                unfolding Cons append_Cons rest by simp
              then show ?thesis by (rule seen)
            next
              case False
              show ?thesis
              proof (cases as)
                case Nil
                with Some du StringV False
                have "\<And>v. parseOne fs v args = Failed (NeedsArgument name)"
                  unfolding Cons rest by simp
                then show ?thesis by (rule fail)
              next
                case (Cons a as')
                with Some du StringV False
                have "\<And>v rest. parseOne fs v (args @ rest)
                        = Seen (v(name \<mapsto> StringV a)) (as' @ rest)"
                  unfolding \<open>args = s # as\<close> append_Cons rest by simp
                then show ?thesis by (rule seen)
              qed
            qed
          qed
        qed
      qed
    qed
  qed
qed

lemma parseOne_vals:
  "parseOne fs v args =
     (case parseOne fs Map.empty args of
        Seen u r \<Rightarrow> Seen (v ++ u) r
      | NoMoreFlags r \<Rightarrow> NoMoreFlags r
      | Failed x \<Rightarrow> Failed x
      | HelpRequested \<Rightarrow> HelpRequested)"
proof (cases rule: parseOne_cases [of fs args])
  case (stop r)
  then show ?thesis by simp
next
  case (fail x)
  then show ?thesis by simp
next
  case usage
  then show ?thesis by simp
next
  case (seen n x r)
  from seen [of _ "[]"] show ?thesis by simp
qed

lemma parseOne_append:
  assumes "parseOne fs v pre = Seen v' pre'"
  shows "parseOne fs v (pre @ rest) = Seen v' (pre' @ rest)"
proof (cases rule: parseOne_cases [of fs pre])
  case (stop r)
  with assms show ?thesis by simp
next
  case (fail x)
  with assms show ?thesis by simp
next
  case usage
  with assms show ?thesis by simp
next
  case (seen n x r)
  from seen [of v "[]"] assms have "v' = v(n \<mapsto> x)" and "pre' = r" by simp_all
  with seen [of v rest] show ?thesis by simp
qed

lemma add_vals_add_vals: "add_vals v (add_vals u res) = add_vals (v ++ u) res"
  by (cases res) (simp_all add: add_vals_def)

lemma Parse_vals: "Parse fs v args = add_vals v (Parse fs Map.empty args)"
proof (induction "length args" arbitrary: v args rule: less_induct)
  case less
  show ?case
  proof (cases "parseOne fs Map.empty args")
    case (Seen u r)
    then have len: "length r < length args" by (rule parseOne_Seen_shorter)
    from Seen have "parseOne fs v args = Seen (v ++ u) r"
      by (simp add: parseOne_vals [of fs v])
    then have "Parse fs v args = Parse fs (v ++ u) r"
      by (simp add: Parse.simps [of fs v args])
    also have "\<dots> = add_vals (v ++ u) (Parse fs Map.empty r)"
      using less [OF len] .
    also have "\<dots> = add_vals v (add_vals u (Parse fs Map.empty r))"
      by (simp add: add_vals_add_vals)
    also have "add_vals u (Parse fs Map.empty r) = Parse fs u r"
      using less [OF len, of u] by simp
    also have "Parse fs u r = Parse fs Map.empty args"
      using Seen by (simp add: Parse.simps [of fs Map.empty args])
    finally show ?thesis .
  next
    case (NoMoreFlags r)
    then have "parseOne fs v args = NoMoreFlags r" by (simp add: parseOne_vals [of fs v])
    with NoMoreFlags show ?thesis
      by (simp add: Parse.simps [of fs _ args] add_vals_def)
  next
    case (Failed x)
    then have "parseOne fs v args = Failed x" by (simp add: parseOne_vals [of fs v])
    with Failed show ?thesis
      by (simp add: Parse.simps [of fs _ args] add_vals_def)
  next
    case HelpRequested
    then have "parseOne fs v args = HelpRequested" by (simp add: parseOne_vals [of fs v])
    with HelpRequested show ?thesis
      by (simp add: Parse.simps [of fs _ args] add_vals_def)
  qed
qed

lemma allFlags_Parse:
  "allFlags fs pre \<Longrightarrow> \<exists>u. \<forall>v rest. Parse fs v (pre @ rest) = Parse fs (v ++ u) rest"
proof (induction "length pre" arbitrary: pre rule: less_induct)
  case less
  show ?case
  proof (cases "pre = []")
    case True
    then have "\<forall>v rest. Parse fs v (pre @ rest) = Parse fs (v ++ Map.empty) rest" by simp
    then show ?thesis by (rule exI [where x = Map.empty])
  next
    case False
    then obtain s args where "pre = s # args" by (cases pre) auto
    with less.prems obtain u1 pre' where
      s: "parseOne fs Map.empty pre = Seen u1 pre'" and a: "allFlags fs pre'"
      by (auto split: parse_step.splits)
    from s have len: "length pre' < length pre" by (rule parseOne_Seen_shorter)
    from less.hyps [OF len a] obtain u2 where
      u2: "\<And>v rest. Parse fs v (pre' @ rest) = Parse fs (v ++ u2) rest" by blast
    have "\<forall>v rest. Parse fs v (pre @ rest) = Parse fs (v ++ (u1 ++ u2)) rest"
    proof (intro allI)
      fix v rest
      from s have "parseOne fs v pre = Seen (v ++ u1) pre'"
        by (simp add: parseOne_vals [of fs v])
      then have "parseOne fs v (pre @ rest) = Seen (v ++ u1) (pre' @ rest)"
        by (rule parseOne_append)
      then have "Parse fs v (pre @ rest) = Parse fs (v ++ u1) (pre' @ rest)"
        by (simp add: Parse.simps [of fs v "pre @ rest"])
      with u2 show "Parse fs v (pre @ rest) = Parse fs (v ++ (u1 ++ u2)) rest" by simp
    qed
    then show ?thesis by (rule exI [where x = "u1 ++ u2"])
  qed
qed

lemma Parse_debug:
  "Parse globalFlags v (''--debug'' # rest) = Parse globalFlags (v(''debug'' \<mapsto> BoolV True)) rest"
  by (subst Parse.simps) (simp add: globalFlags_def)

lemma add_vals_same_but_debug:
  "\<forall>k. k \<noteq> ''debug'' \<longrightarrow> v1 k = v2 k \<Longrightarrow> same_but_debug (add_vals v1 res) (add_vals v2 res)"
  by (cases res) (auto simp: add_vals_def map_add_def split: option.splits)

lemma debug_flag_parse:
  assumes "allFlags globalFlags pre"
  shows "same_but_debug (Parse globalFlags Map.empty (pre @ ''--debug'' # rest))
                        (Parse globalFlags Map.empty (pre @ rest))"
proof -
  from allFlags_Parse [OF assms] obtain u where
    u: "\<And>v rest. Parse globalFlags v (pre @ rest) = Parse globalFlags (v ++ u) rest" by blast
  have "Parse globalFlags Map.empty (pre @ ''--debug'' # rest)
          = Parse globalFlags (u(''debug'' \<mapsto> BoolV True)) rest"
    by (simp add: u Parse_debug)
  also have "\<dots> = add_vals (u(''debug'' \<mapsto> BoolV True)) (Parse globalFlags Map.empty rest)"
    by (rule Parse_vals)
  finally have 1: "Parse globalFlags Map.empty (pre @ ''--debug'' # rest)
          = add_vals (u(''debug'' \<mapsto> BoolV True)) (Parse globalFlags Map.empty rest)" .
  have "Parse globalFlags Map.empty (pre @ rest) = Parse globalFlags u rest"
    by (simp add: u)
  also have "\<dots> = add_vals u (Parse globalFlags Map.empty rest)"
    by (rule Parse_vals)
  finally have 2: "Parse globalFlags Map.empty (pre @ rest)
          = add_vals u (Parse globalFlags Map.empty rest)" .
  show ?thesis unfolding 1 2 by (rule add_vals_same_but_debug) simp
qed

text \<open>\<open>main\<close> reads the result of the parser but for the value of \<open>debug\<close>.\<close>

lemma main_same_but_debug:
  assumes "same_but_debug (Parse globalFlags Map.empty args1) (Parse globalFlags Map.empty args2)"
  shows "main e args1 = main e args2"
proof (cases "Parse globalFlags Map.empty args1")
  case (ParseFailed x)
  with assms have "Parse globalFlags Map.empty args2 = ParseFailed x"
    by (cases "Parse globalFlags Map.empty args2") simp_all
  with ParseFailed show ?thesis by (simp add: main_def parseFlags_def)
next
  case ParseHelp
  with assms have "Parse globalFlags Map.empty args2 = ParseHelp"
    by (cases "Parse globalFlags Map.empty args2") simp_all
  with ParseHelp show ?thesis by (simp add: main_def parseFlags_def)
next
  case (Parsed v1 r)
  with assms obtain v2 where
    p2: "Parse globalFlags Map.empty args2 = Parsed v2 r"
    and v: "\<forall>k. k \<noteq> ''debug'' \<longrightarrow> v1 k = v2 k"
    by (cases "Parse globalFlags Map.empty args2") simp_all
  from v have "v1 ''bridge'' = v2 ''bridge''" and "v1 ''color'' = v2 ''color''" by simp_all
  then have "stringVar v1 ''bridge'' [] = stringVar v2 ''bridge'' []"
    and "stringVar v1 ''color'' ''auto'' = stringVar v2 ''color'' ''auto''"
    by (simp_all add: stringVar_def)
  with Parsed p2 show ?thesis by (simp add: main_def parseFlags_def Let_def)
qed

text \<open>
  C10: the global flag \<open>--debug\<close> has no effect. Two command lines that differ only
  in one \<open>--debug\<close>, at a place where the parser of the global flags expects a flag
  (after any number of complete global flags), give the same run in every outside
  world: the same events in the same order, so the same output on both streams, and
  the same outcome.
\<close>

theorem debug_flag_has_no_effect:
  assumes "allFlags globalFlags pre"
  shows "main e (pre @ ''--debug'' # rest) = main e (pre @ rest)"
  using debug_flag_parse [OF assms] by (rule main_same_but_debug)

theorem debug_flag_has_no_effect_witness:
  "allFlags globalFlags [''--color'', ''off'']
   \<and> main example_env [''--color'', ''off'', ''--debug'', ''info'', ''/run/sock'']
       = main example_env [''--color'', ''off'', ''info'', ''/run/sock'']
   \<and> main example_env [''--color'', ''off'', ''info'', ''/run/sock'']
       = ([EvNewConnection ''/run/sock'' None,
           EvGetInfo (AddressConn ''/run/sock'')
             (Inr \<lparr>vendor = ''Foo'', product = ''food'', version = ''1'',
                   url = ''http://foo.example'', interfaces = [''org.Foo'']\<rparr>),
           Stdout ''Vendor: Foo\<newline>'', Stdout ''Product: food\<newline>'',
           Stdout ''Version: 1\<newline>'', Stdout ''URL: http://foo.example\<newline>'',
           Stdout ''Interfaces:\<newline>  org.Foo\<newline>\<newline>''],
          Returned)"
proof -
  have a: "allFlags globalFlags [''--color'', ''off'']"
    by (simp add: globalFlags_def)
  have r: "main example_env [''--color'', ''off'', ''info'', ''/run/sock'']
       = ([EvNewConnection ''/run/sock'' None,
           EvGetInfo (AddressConn ''/run/sock'')
             (Inr \<lparr>vendor = ''Foo'', product = ''food'', version = ''1'',
                   url = ''http://foo.example'', interfaces = [''org.Foo'']\<rparr>),
           Stdout ''Vendor: Foo\<newline>'', Stdout ''Product: food\<newline>'',
           Stdout ''Version: 1\<newline>'', Stdout ''URL: http://foo.example\<newline>'',
           Stdout ''Interfaces:\<newline>  org.Foo\<newline>\<newline>''],
          Returned)"
    by (simp add: main_def varlinkInfo_def infoConnect_def example_simps)
  have m: "main example_env [''--color'', ''off'', ''--debug'', ''info'', ''/run/sock'']
       = main example_env [''--color'', ''off'', ''info'', ''/run/sock'']"
    using debug_flag_has_no_effect [OF a, of example_env "[''info'', ''/run/sock'']"]
    by (simp only: append.simps)
  from a m r show ?thesis by blast
qed

end
